theory Spec2Isabelle
  imports Complex_Main "HOL-Library.Sublist"
begin

section \<open>Python values\<close>

text \<open>
  The user models of \<^verbatim>\<open>discord_http/user.py\<close> are built from decoded response bodies:
  dictionaries, lists, strings, numbers, booleans and \<^verbatim>\<open>None\<close>.  A dictionary is an
  association list read with \<open>map_of\<close>; a string is a list of characters with code points
  below 256; an \<^verbatim>\<open>int\<close> is unbounded.  A \<^verbatim>\<open>float\<close> is a rational or one of the three
  special values.
\<close>

datatype pyfloat = Finite rat | PosInf | NegInf | NaN

datatype json =
    JNull
  | JBool bool
  | JInt int
  | JFloat pyfloat
  | JStr string
  | JList "json list"
  | JObj "(string \<times> json) list"

text \<open>Exceptions.  \<open>Raised\<close> is any exception of a function defined outside \<^verbatim>\<open>user.py\<close>.\<close>

datatype exn =
    KeyError string
  | TypeError
  | ValueError
  | OverflowError
  | ZeroDivisionError
  | Raised string

text \<open>A keyword argument whose default is the \<^verbatim>\<open>MISSING\<close> sentinel.\<close>

datatype 'a arg = MISSING | Given 'a

definition and_then :: "exn + 'a \<Rightarrow> ('a \<Rightarrow> exn + 'b) \<Rightarrow> exn + 'b" where
  "and_then x f = (case x of Inl e \<Rightarrow> Inl e | Inr v \<Rightarrow> f v)"

text \<open>Truth value testing, as \<^verbatim>\<open>if x:\<close> and \<^verbatim>\<open>x or y\<close> do it.\<close>

fun truthy :: "json \<Rightarrow> bool" where
  "truthy JNull = False"
| "truthy (JBool b) = b"
| "truthy (JInt i) = (i \<noteq> 0)"
| "truthy (JFloat (Finite q)) = (q \<noteq> 0)"
| "truthy (JFloat _) = True"
| "truthy (JStr s) = (s \<noteq> [])"
| "truthy (JList xs) = (xs \<noteq> [])"
| "truthy (JObj kvs) = (kvs \<noteq> [])"

text \<open>\<^verbatim>\<open>data.get(k, default)\<close> and \<^verbatim>\<open>data[k]\<close> on a dictionary.\<close>

definition dict_get :: "(string \<times> json) list \<Rightarrow> string \<Rightarrow> json \<Rightarrow> json" where
  "dict_get kvs k d = (case map_of kvs k of None \<Rightarrow> d | Some v \<Rightarrow> v)"

definition dict_item :: "(string \<times> json) list \<Rightarrow> string \<Rightarrow> exn + json" where
  "dict_item kvs k = (case map_of kvs k of None \<Rightarrow> Inl (KeyError k) | Some v \<Rightarrow> Inr v)"

subsection \<open>\<^verbatim>\<open>int(x)\<close> and \<^verbatim>\<open>str(i)\<close>\<close>

definition is_digit :: "char \<Rightarrow> bool" where
  "is_digit c = (48 \<le> (of_char c :: nat) \<and> (of_char c :: nat) \<le> 57)"

definition digit_val :: "char \<Rightarrow> nat" where
  "digit_val c = of_char c - 48"

definition digit_char :: "nat \<Rightarrow> char" where
  "digit_char n = char_of (48 + n)"

definition is_space :: "char \<Rightarrow> bool" where
  "is_space c = (let n = (of_char c :: nat) in
     (9 \<le> n \<and> n \<le> 13) \<or> n = 32 \<or> n = 133 \<or> n = 160)"

definition strip :: "string \<Rightarrow> string" where
  "strip s = rev (dropWhile is_space (rev (dropWhile is_space s)))"

text \<open>
  \<^verbatim>\<open>int(s)\<close> of a string: surrounding whitespace is dropped, then an optional sign and
  the digits of a decimal literal follow, at least one digit, with single underscores only
  between two digits.  \<open>digits_from acc cs\<close> reads on after a digit.  The limit that the
  interpreter puts on the number of digits (4300 unless configured) is left out.
\<close>

fun digits_from :: "nat \<Rightarrow> string \<Rightarrow> nat option" where
  "digits_from acc [] = Some acc"
| "digits_from acc [c] = (if is_digit c then Some (10 * acc + digit_val c) else None)"
| "digits_from acc (c # d # cs) =
     (if is_digit c then digits_from (10 * acc + digit_val c) (d # cs)
      else if c = CHR ''_'' \<and> is_digit d then digits_from (10 * acc + digit_val d) cs
      else None)"

definition digits :: "string \<Rightarrow> nat option" where
  "digits s = (case s of [] \<Rightarrow> None
     | c # cs \<Rightarrow> if is_digit c then digits_from (digit_val c) cs else None)"

definition int_of_str :: "string \<Rightarrow> int option" where
  "int_of_str s = (case strip s of [] \<Rightarrow> None
     | c # cs \<Rightarrow>
         if c = CHR ''-'' then map_option (\<lambda>n. - int n) (digits cs)
         else if c = CHR ''+'' then map_option int (digits cs)
         else map_option int (digits (c # cs)))"

definition trunc :: "rat \<Rightarrow> int" where
  "trunc q = (if q < 0 then - \<lfloor>- q\<rfloor> else \<lfloor>q\<rfloor>)"

fun py_int :: "json \<Rightarrow> exn + int" where
  "py_int (JInt i) = Inr i"
| "py_int (JBool b) = Inr (if b then 1 else 0)"
| "py_int (JFloat (Finite q)) = Inr (trunc q)"
| "py_int (JFloat NaN) = Inl ValueError"
| "py_int (JFloat _) = Inl OverflowError"
| "py_int (JStr s) = (case int_of_str s of None \<Rightarrow> Inl ValueError | Some i \<Rightarrow> Inr i)"
| "py_int _ = Inl TypeError"

function dec_of_nat :: "nat \<Rightarrow> string" where
  "dec_of_nat n =
     (if n < 10 then [digit_char n] else dec_of_nat (n div 10) @ [digit_char (n mod 10)])"
  by pat_completeness auto
termination
  by (relation "measure (\<lambda>n. n)") auto

declare dec_of_nat.simps [simp del]

definition str_of_int :: "int \<Rightarrow> string" where
  "str_of_int i = (if i < 0 then CHR ''-'' # dec_of_nat (nat (- i)) else dec_of_nat (nat i))"

section \<open>The classes of \<^verbatim>\<open>user.py\<close>\<close>

text \<open>
  \<^verbatim>\<open>PartialUser\<close>, \<^verbatim>\<open>User(PartialUser)\<close> and \<^verbatim>\<open>UserClient(User)\<close> are records, each
  extending the one before.  The \<^verbatim>\<open>_state\<close> attribute is the one shared handle of the
  request-issuing collaborator; it is the \<open>api\<close> argument of the operations below and no
  field.  Attributes read straight from the response (\<^verbatim>\<open>name\<close>, \<^verbatim>\<open>bot\<close>,
  \<^verbatim>\<open>global_name\<close>, ...) hold whatever value the response had; \<^verbatim>\<open>None\<close> is \<open>JNull\<close> there.
  \<^verbatim>\<open>Asset\<close>, \<^verbatim>\<open>Colour\<close> and \<^verbatim>\<open>UserFlags\<close> are classes of other modules: the types
  \<open>'a\<close>, \<open>'c\<close> and \<open>'f\<close>.
\<close>

record partial_user =
  user_id :: int

record ('a, 'c, 'f) user = partial_user +
  avatar :: "'a option"
  banner :: "'a option"
  name :: json
  bot_flag :: json
  system :: json
  discriminator :: json
  accent_colour :: "'c option"
  banner_colour :: "'c option"
  avatar_decoration :: "'a option"
  global_name :: json
  public_flags :: "'f option"
  clan :: json

record ('a, 'c, 'f) user_client = "('a, 'c, 'f) user" +
  verified :: json

text \<open>
  The constructors of \<^verbatim>\<open>asset.py\<close>, \<^verbatim>\<open>colour.py\<close>, \<^verbatim>\<open>flags.py\<close> and the size of the
  enumeration \<^verbatim>\<open>DefaultAvatarType\<close> of \<^verbatim>\<open>enums.py\<close> are parameters: each constructor may
  raise.
\<close>

record ('a, 'c, 'f) models =
  Asset_from_avatar :: "int \<Rightarrow> json \<Rightarrow> exn + 'a"
  Asset_from_banner :: "int \<Rightarrow> json \<Rightarrow> exn + 'a"
  Asset_from_avatar_decoration :: "json \<Rightarrow> exn + 'a"
  Asset_from_default_avatar :: "int \<Rightarrow> exn + 'a"
  Colour_init :: "json \<Rightarrow> exn + 'c"
  Colour_from_hex :: "json \<Rightarrow> exn + 'c"
  UserFlags_init :: "json \<Rightarrow> exn + 'f"
  len_DefaultAvatarType :: nat

subsection \<open>\<^verbatim>\<open>PartialUser\<close>\<close>

text \<open>\<^verbatim>\<open>PartialUser.__init__\<close>: \<^verbatim>\<open>super().__init__(id=int(id))\<close>.\<close>

definition PartialUser_init :: "json \<Rightarrow> exn + partial_user" where
  "PartialUser_init i = and_then (py_int i) (\<lambda>n. Inr \<lparr>user_id = n\<rparr>)"

text \<open>\<^verbatim>\<open>PartialUser.mention\<close>: \<^verbatim>\<open>f"<@!{self.id}>"\<close>.\<close>

definition mention :: "'z partial_user_scheme \<Rightarrow> string" where
  "mention self = ''<@!'' @ str_of_int (user_id self) @ ''>''"

text \<open>
  \<^verbatim>\<open>PartialUser.default_avatar\<close>.  \<^verbatim>\<open>>>\<close> on an \<^verbatim>\<open>int\<close> is the arithmetic shift,
  \<^verbatim>\<open>%\<close> takes the sign of the divisor and raises on zero.
\<close>

definition default_avatar_index :: "nat \<Rightarrow> int \<Rightarrow> exn + int" where
  "default_avatar_index n i =
     (if n = 0 then Inl ZeroDivisionError else Inr (drop_bit 22 i mod int n))"

definition default_avatar :: "('a, 'c, 'f) models \<Rightarrow> 'z partial_user_scheme \<Rightarrow> exn + 'a" where
  "default_avatar m self =
     and_then (default_avatar_index (len_DefaultAvatarType m) (user_id self))
       (Asset_from_default_avatar m)"

subsection \<open>\<^verbatim>\<open>User\<close>\<close>

text \<open>
  \<^verbatim>\<open>User._from_data\<close>: six guarded assignments, in the order of the source; a constructor
  that raises ends the method.
\<close>

definition from_data ::
  "('a, 'c, 'f) models \<Rightarrow> (string \<times> json) list \<Rightarrow> ('a, 'c, 'f, 'z) user_scheme
     \<Rightarrow> exn + ('a, 'c, 'f, 'z) user_scheme" where
  "from_data m data self =
     and_then
       (if truthy (dict_get data ''avatar'' JNull)
        then and_then (dict_item data ''avatar'') (\<lambda>v.
             and_then (Asset_from_avatar m (user_id self) v) (\<lambda>a.
             Inr (self\<lparr>avatar := Some a\<rparr>)))
        else Inr self) (\<lambda>self.
     and_then
       (if truthy (dict_get data ''banner'' JNull)
        then and_then (dict_item data ''banner'') (\<lambda>v.
             and_then (Asset_from_banner m (user_id self) v) (\<lambda>a.
             Inr (self\<lparr>banner := Some a\<rparr>)))
        else Inr self) (\<lambda>self.
     and_then
       (if truthy (dict_get data ''accent_color'' JNull)
        then and_then (dict_item data ''accent_color'') (\<lambda>v.
             and_then (Colour_init m v) (\<lambda>c.
             Inr (self\<lparr>accent_colour := Some c\<rparr>)))
        else Inr self) (\<lambda>self.
     and_then
       (if truthy (dict_get data ''banner_color'' JNull)
        then and_then (dict_item data ''banner_color'') (\<lambda>v.
             and_then (Colour_from_hex m v) (\<lambda>c.
             Inr (self\<lparr>banner_colour := Some c\<rparr>)))
        else Inr self) (\<lambda>self.
     and_then
       (if truthy (dict_get data ''avatar_decoration'' JNull)
        then and_then (dict_item data ''avatar_decoration'') (\<lambda>v.
             and_then (Asset_from_avatar_decoration m v) (\<lambda>a.
             Inr (self\<lparr>avatar_decoration := Some a\<rparr>)))
        else Inr self) (\<lambda>self.
       (if truthy (dict_get data ''public_flags'' JNull)
        then and_then (dict_item data ''public_flags'') (\<lambda>v.
             and_then (UserFlags_init m v) (\<lambda>f.
             Inr (self\<lparr>public_flags := Some f\<rparr>)))
        else Inr self))))))"

text \<open>
  \<^verbatim>\<open>User.__init__\<close>, written for any subclass: \<open>z\<close> is what the subclass adds.  Subscripting
  a response that is no dictionary raises \<^verbatim>\<open>TypeError\<close>.
\<close>

definition User_init_scheme ::
  "('a, 'c, 'f) models \<Rightarrow> json \<Rightarrow> 'z \<Rightarrow> exn + ('a, 'c, 'f, 'z) user_scheme" where
  "User_init_scheme m d z =
     (case d of
        JObj data \<Rightarrow>
          and_then (dict_item data ''id'') (\<lambda>raw.
          and_then (py_int raw) (\<lambda>i.
          and_then (py_int (JInt i)) (\<lambda>i.
          and_then (dict_item data ''username'') (\<lambda>username.
          from_data m data
            \<lparr>user_id = i,
             avatar = None,
             banner = None,
             name = username,
             bot_flag = dict_get data ''bot'' (JBool False),
             system = dict_get data ''system'' (JBool False),
             discriminator =
               (let disc = dict_get data ''discriminator'' JNull
                in if disc = JStr ''0'' then JNull else disc),
             accent_colour = None,
             banner_colour = None,
             avatar_decoration = None,
             global_name = dict_get data ''global_name'' JNull,
             public_flags = None,
             clan = dict_get data ''clan'' JNull,
             \<dots> = z\<rparr>))))
      | _ \<Rightarrow> Inl TypeError)"

definition User_init :: "('a, 'c, 'f) models \<Rightarrow> json \<Rightarrow> exn + ('a, 'c, 'f) user" where
  "User_init m d = User_init_scheme m d ()"

text \<open>\<^verbatim>\<open>User.display_name\<close>: \<^verbatim>\<open>self.global_name or self.name\<close>.\<close>

definition display_name :: "('a, 'c, 'f, 'z) user_scheme \<Rightarrow> json" where
  "display_name self = (if truthy (global_name self) then global_name self else name self)"

text \<open>
  \<^verbatim>\<open>User.display_avatar\<close>: \<^verbatim>\<open>self.avatar or self.default_avatar\<close>.  An \<^verbatim>\<open>Asset\<close> is an
  ordinary object and so true; \<^verbatim>\<open>None\<close> is false.
\<close>

definition display_avatar ::
  "('a, 'c, 'f) models \<Rightarrow> ('a, 'c, 'f, 'z) user_scheme \<Rightarrow> exn + 'a" where
  "display_avatar m self =
     (case avatar self of Some a \<Rightarrow> Inr a | None \<Rightarrow> default_avatar m self)"

subsection \<open>\<^verbatim>\<open>UserClient\<close>\<close>

text \<open>
  \<^verbatim>\<open>UserClient.__init__\<close>: the \<^verbatim>\<open>User\<close> part first, then \<^verbatim>\<open>verified\<close>.  The field is
  assigned after \<^verbatim>\<open>User.__init__\<close> has returned, which reads nothing of it.
\<close>

definition UserClient_init ::
  "('a, 'c, 'f) models \<Rightarrow> json \<Rightarrow> exn + ('a, 'c, 'f) user_client" where
  "UserClient_init m d =
     and_then (User_init m d) (\<lambda>u.
       case d of
         JObj data \<Rightarrow>
           Inr (user.extend u (user_client.fields (dict_get data ''verified'' (JBool False))))
       | _ \<Rightarrow> Inl TypeError)"

section \<open>Requests, the collaborator and the store of objects\<close>

text \<open>
  One call \<^verbatim>\<open>self._state.query(method, path, json=.., data=.., headers=..)\<close>; a keyword
  that the call does not pass is \<open>None\<close>.
\<close>

record request =
  http_method :: string
  http_path :: string
  json_arg :: "json option"
  data_arg :: "string option"
  headers_arg :: "(string \<times> string) list option"

text \<open>
  What \<^verbatim>\<open>user.py\<close> calls and does not define.  \<open>query_fn\<close> is the collaborator
  (\<^verbatim>\<open>DiscordAPI.query\<close>): on its own state \<open>'w\<close> it answers a request with the decoded
  body (\<^verbatim>\<open>r.response\<close>) or raises.  \<^verbatim>\<open>Message\<close>, \<^verbatim>\<open>DMChannel\<close> and
  \<^verbatim>\<open>MessageResponse\<close> are classes of other modules (the types \<open>'m\<close>, \<open>'d\<close>, \<open>'r\<close>);
  \<open>'p\<close> is the tuple of the ten arguments that \<^verbatim>\<open>send\<close> hands on to
  \<^verbatim>\<open>MessageResponse\<close> unread (content, embed, embeds, file, files, view, tts, type,
  flags, allowed_mentions).  \<^verbatim>\<open>utils.bytes_to_base64\<close> is a parameter as well, and so
  is the request by which \<^verbatim>\<open>message.py\<close> deletes a message.
\<close>

record ('w, 'm, 'd, 'r, 'p) api =
  query_fn :: "request \<Rightarrow> 'w \<Rightarrow> (exn + json) \<times> 'w"
  Message_init :: "json \<Rightarrow> exn + 'm"
  DMChannel_init :: "json \<Rightarrow> exn + 'd"
  DMChannel_id :: "'d \<Rightarrow> int"
  MessageResponse_init :: "'p \<Rightarrow> exn + 'r"
  to_multipart :: "'r \<Rightarrow> exn + string"
  content_type :: "'r \<Rightarrow> string"
  bytes_to_base64 :: "string \<Rightarrow> exn + string"
  delete_request :: "'m \<Rightarrow> request"

text \<open>
  Instances live in a store: \<open>heap\<close> maps a reference to its object, the references below
  \<open>next_free\<close> are the allocated ones.  \<open>trace\<close> lists the requests that the methods of
  \<^verbatim>\<open>user.py\<close> have sent, oldest first; \<open>world\<close> is the collaborator's own state;
  \<open>detached\<close> holds the units of work that were spawned and have not run yet.
\<close>

datatype ('a, 'c, 'f) obj =
    PartialUserObj partial_user
  | UserObj "('a, 'c, 'f) user"
  | UserClientObj "('a, 'c, 'f) user_client"

fun obj_id :: "('a, 'c, 'f) obj \<Rightarrow> int" where
  "obj_id (PartialUserObj p) = user_id p"
| "obj_id (UserObj u) = user_id u"
| "obj_id (UserClientObj u) = user_id u"

record ('w, 'm, 'a, 'c, 'f) runtime =
  trace :: "request list"
  world :: 'w
  heap :: "nat \<Rightarrow> ('a, 'c, 'f) obj"
  next_free :: nat
  detached :: "(pyfloat \<times> 'm) list"

definition query ::
  "('w, 'm, 'd, 'r, 'p) api \<Rightarrow> request \<Rightarrow> ('w, 'm, 'a, 'c, 'f) runtime
     \<Rightarrow> (exn + json) \<times> ('w, 'm, 'a, 'c, 'f) runtime" where
  "query api req s =
     (case query_fn api req (world s) of
        (res, w) \<Rightarrow> (res, s\<lparr>trace := trace s @ [req], world := w\<rparr>))"

text \<open>
  A constructor call that returns: the new instance gets the next reference.  (When
  \<^verbatim>\<open>__init__\<close> raises, nothing holds the half-built instance and the store is as before.)
\<close>

definition alloc ::
  "('a, 'c, 'f) obj \<Rightarrow> ('w, 'm, 'a, 'c, 'f) runtime \<Rightarrow> (exn + nat) \<times> ('w, 'm, 'a, 'c, 'f) runtime" where
  "alloc ob s =
     (Inr (next_free s), s\<lparr>heap := (heap s)(next_free s := ob), next_free := Suc (next_free s)\<rparr>)"

section \<open>The operations\<close>

text \<open>
  Modelled from the spec: \<^verbatim>\<open>Message.delete\<close> of \<^verbatim>\<open>message.py\<close>, which is not among
  the sources.  Called with a delay it "schedules a best-effort deferred deletion of the
  sent message after that many seconds" as "an explicitly spawned, detached unit of work":
  the call records the unit and returns.  The seconds themselves are not modelled.
\<close>

definition Message_delete ::
  "'m \<Rightarrow> pyfloat \<Rightarrow> ('w, 'm, 'a, 'c, 'f) runtime \<Rightarrow> (exn + unit) \<times> ('w, 'm, 'a, 'c, 'f) runtime" where
  "Message_delete msg delay s = (Inr (), s\<lparr>detached := detached s @ [(delay, msg)]\<rparr>)"

text \<open>
  Modelled from the spec: one detached deletion running, some time after it was spawned
  (the rest of \<^verbatim>\<open>Message.delete\<close>, which is not among the sources).  It sends its
  request and "swallows/detaches its own failure": whatever the collaborator answers, no
  value and no exception comes out of it.
\<close>

definition run_deletion ::
  "('w, 'm, 'd, 'r, 'p) api \<Rightarrow> pyfloat \<times> 'm \<Rightarrow> ('w, 'm, 'a, 'c, 'f) runtime
     \<Rightarrow> ('w, 'm, 'a, 'c, 'f) runtime" where
  "run_deletion api unit s = snd (query api (delete_request api (snd unit)) s)"

text \<open>
  Modelled from the spec: the pending detached units run "independently of the caller's
  continuation"; here all of them, in the order in which they were spawned.
\<close>

definition run_detached ::
  "('w, 'm, 'd, 'r, 'p) api \<Rightarrow> ('w, 'm, 'a, 'c, 'f) runtime \<Rightarrow> ('w, 'm, 'a, 'c, 'f) runtime" where
  "run_detached api s = fold (run_deletion api) (detached s) (s\<lparr>detached := []\<rparr>)"

text \<open>\<^verbatim>\<open>PartialUser.create_dm\<close>.\<close>

definition create_dm_request :: "int \<Rightarrow> request" where
  "create_dm_request i =
     \<lparr>http_method = ''POST'', http_path = ''/users/@me/channels'',
      json_arg = Some (JObj [(''recipient_id'', JInt i)]), data_arg = None, headers_arg = None\<rparr>"

definition create_dm ::
  "('w, 'm, 'd, 'r, 'p) api \<Rightarrow> nat \<Rightarrow> ('w, 'm, 'a, 'c, 'f) runtime
     \<Rightarrow> (exn + 'd) \<times> ('w, 'm, 'a, 'c, 'f) runtime" where
  "create_dm api self s =
     (case query api (create_dm_request (obj_id (heap s self))) s of
        (Inl e, s1) \<Rightarrow> (Inl e, s1)
      | (Inr r, s1) \<Rightarrow> (DMChannel_init api r, s1))"

text \<open>
  \<^verbatim>\<open>PartialUser.send\<close>.  \<^verbatim>\<open>channel_id\<close> is \<^verbatim>\<open>MISSING\<close>, \<^verbatim>\<open>None\<close> or an
  \<^verbatim>\<open>int\<close>, and the f-string of the path formats whichever it is.  \<^verbatim>\<open>delete_after\<close> is a
  \<^verbatim>\<open>float\<close> or \<^verbatim>\<open>None\<close>; \<^verbatim>\<open>float(x)\<close> of a float is \<^verbatim>\<open>x\<close>.
\<close>

definition format_channel_id :: "int option \<Rightarrow> string" where
  "format_channel_id c = (case c of None \<Rightarrow> ''None'' | Some i \<Rightarrow> str_of_int i)"

definition create_message_request :: "int option \<Rightarrow> string \<Rightarrow> string \<Rightarrow> request" where
  "create_message_request c body ctype =
     \<lparr>http_method = ''POST'', http_path = ''/channels/'' @ format_channel_id c @ ''/messages'',
      json_arg = None, data_arg = Some body, headers_arg = Some [(''Content-Type'', ctype)]\<rparr>"

definition send ::
  "('w, 'm, 'd, 'r, 'p) api \<Rightarrow> nat \<Rightarrow> 'p \<Rightarrow> int option arg \<Rightarrow> pyfloat option
     \<Rightarrow> ('w, 'm, 'a, 'c, 'f) runtime \<Rightarrow> (exn + 'm) \<times> ('w, 'm, 'a, 'c, 'f) runtime" where
  "send api self content channel_id delete_after s =
     (case (case channel_id of
              MISSING \<Rightarrow>
                (case create_dm api self s of
                   (Inl e, s1) \<Rightarrow> (Inl e, s1)
                 | (Inr fetch_channel, s1) \<Rightarrow> (Inr (Some (DMChannel_id api fetch_channel)), s1))
            | Given c \<Rightarrow> (Inr c, s)) of
        (Inl e, s1) \<Rightarrow> (Inl e, s1)
      | (Inr channel_id, s1) \<Rightarrow>
          (case MessageResponse_init api content of
             Inl e \<Rightarrow> (Inl e, s1)
           | Inr payload \<Rightarrow>
               (case to_multipart api payload of
                  Inl e \<Rightarrow> (Inl e, s1)
                | Inr body \<Rightarrow>
                    (case query api
                            (create_message_request channel_id body (content_type api payload)) s1 of
                       (Inl e, s2) \<Rightarrow> (Inl e, s2)
                     | (Inr r, s2) \<Rightarrow>
                         (case Message_init api r of
                            Inl e \<Rightarrow> (Inl e, s2)
                          | Inr msg \<Rightarrow>
                              (case delete_after of
                                 None \<Rightarrow> (Inr msg, s2)
                               | Some delay \<Rightarrow>
                                   (case Message_delete msg delay s2 of
                                      (Inl e, s3) \<Rightarrow> (Inl e, s3)
                                    | (Inr _, s3) \<Rightarrow> (Inr msg, s3))))))))"

text \<open>\<^verbatim>\<open>PartialUser.fetch\<close>.\<close>

definition fetch_request :: "int \<Rightarrow> request" where
  "fetch_request i =
     \<lparr>http_method = ''GET'', http_path = ''/users/'' @ str_of_int i,
      json_arg = None, data_arg = None, headers_arg = None\<rparr>"

definition fetch ::
  "('a, 'c, 'f) models \<Rightarrow> ('w, 'm, 'd, 'r, 'p) api \<Rightarrow> nat \<Rightarrow> ('w, 'm, 'a, 'c, 'f) runtime
     \<Rightarrow> (exn + nat) \<times> ('w, 'm, 'a, 'c, 'f) runtime" where
  "fetch m api self s =
     (case query api (fetch_request (obj_id (heap s self))) s of
        (Inl e, s1) \<Rightarrow> (Inl e, s1)
      | (Inr r, s1) \<Rightarrow>
          (case User_init m r of
             Inl e \<Rightarrow> (Inl e, s1)
           | Inr u \<Rightarrow> alloc (UserObj u) s1))"

text \<open>
  \<^verbatim>\<open>UserClient.edit\<close>.  \<^verbatim>\<open>payload[k] = v\<close> replaces the value of a key that is there
  and appends the key otherwise.  \<open>edit_payload\<close> is the part of the method before the
  request.
\<close>

fun dict_set :: "(string \<times> json) list \<Rightarrow> string \<Rightarrow> json \<Rightarrow> (string \<times> json) list" where
  "dict_set [] k v = [(k, v)]"
| "dict_set ((k', v') # kvs) k v =
     (if k' = k then (k, v) # kvs else (k', v') # dict_set kvs k v)"

definition edit_payload ::
  "('w, 'm, 'd, 'r, 'p) api \<Rightarrow> string option arg \<Rightarrow> string option arg \<Rightarrow> string option arg
     \<Rightarrow> exn + (string \<times> json) list" where
  "edit_payload api username avatar_arg banner_arg =
     and_then
       (Inr (case username of
               MISSING \<Rightarrow> []
             | Given None \<Rightarrow> dict_set [] ''username'' JNull
             | Given (Some u) \<Rightarrow> dict_set [] ''username'' (JStr u))) (\<lambda>payload.
     and_then
       (case avatar_arg of
          MISSING \<Rightarrow> Inr payload
        | Given (Some bytes) \<Rightarrow>
            and_then (bytes_to_base64 api bytes) (\<lambda>b64. Inr (dict_set payload ''avatar'' (JStr b64)))
        | Given None \<Rightarrow> Inr (dict_set payload ''avatar'' JNull)) (\<lambda>payload.
       (case banner_arg of
          MISSING \<Rightarrow> Inr payload
        | Given (Some bytes) \<Rightarrow>
            and_then (bytes_to_base64 api bytes) (\<lambda>b64. Inr (dict_set payload ''banner'' (JStr b64)))
        | Given None \<Rightarrow> Inr (dict_set payload ''banner'' JNull))))"

definition edit_request :: "(string \<times> json) list \<Rightarrow> request" where
  "edit_request payload =
     \<lparr>http_method = ''PATCH'', http_path = ''/users/@me'',
      json_arg = Some (JObj payload), data_arg = None, headers_arg = None\<rparr>"

definition edit ::
  "('a, 'c, 'f) models \<Rightarrow> ('w, 'm, 'd, 'r, 'p) api \<Rightarrow> nat
     \<Rightarrow> string option arg \<Rightarrow> string option arg \<Rightarrow> string option arg
     \<Rightarrow> ('w, 'm, 'a, 'c, 'f) runtime \<Rightarrow> (exn + nat) \<times> ('w, 'm, 'a, 'c, 'f) runtime" where
  "edit m api self username avatar_arg banner_arg s =
     (case edit_payload api username avatar_arg banner_arg of
        Inl e \<Rightarrow> (Inl e, s)
      | Inr payload \<Rightarrow>
          (case query api (edit_request payload) s of
             (Inl e, s1) \<Rightarrow> (Inl e, s1)
           | (Inr r, s1) \<Rightarrow>
               (case UserClient_init m r of
                  Inl e \<Rightarrow> (Inl e, s1)
                | Inr u \<Rightarrow> alloc (UserClientObj u) s1)))"

section \<open>Auxiliary definitions\<close>

text \<open>A key is present in a dictionary with a true value.\<close>

definition present_truthy :: "(string \<times> json) list \<Rightarrow> string \<Rightarrow> bool" where
  "present_truthy data k = (case map_of data k of None \<Rightarrow> False | Some v \<Rightarrow> truthy v)"


text \<open>
  The shape shared by the six steps of \<^verbatim>\<open>User._from_data\<close>: under the guard
  \<^verbatim>\<open>data.get(k, None)\<close> read \<^verbatim>\<open>data[k]\<close>, build the value and store it.
\<close>

definition guarded :: "(string \<times> json) list \<Rightarrow> string \<Rightarrow> (json \<Rightarrow> exn + 'x) \<Rightarrow> ('x \<Rightarrow> 's) \<Rightarrow> 's \<Rightarrow> exn + 's" where
  "guarded data k F g s =
     (if truthy (dict_get data k JNull)
      then and_then (dict_item data k) (\<lambda>v. and_then (F v) (\<lambda>a. Inr (g a)))
      else Inr s)"


text \<open>
  Concrete parameters for running the definitions on examples: every constructor returns
  what it is given, and \<^verbatim>\<open>DefaultAvatarType\<close> has six members.
\<close>

definition plain_models :: "(json, json, json) models" where
  "plain_models =
     \<lparr>Asset_from_avatar = (\<lambda>i v. Inr v),
      Asset_from_banner = (\<lambda>i v. Inr v),
      Asset_from_avatar_decoration = (\<lambda>v. Inr v),
      Asset_from_default_avatar = (\<lambda>i. Inr (JInt i)),
      Colour_init = (\<lambda>v. Inr v),
      Colour_from_hex = (\<lambda>v. Inr v),
      UserFlags_init = (\<lambda>v. Inr v),
      len_DefaultAvatarType = 6\<rparr>"


text \<open>
  The server record of the end-to-end scenario, and a record with some optional keys
  present: a true avatar, a null banner and a zero accent colour.
\<close>

definition scenario_data :: "(string \<times> json) list" where
  "scenario_data =
     [(''id'', JStr ''123''), (''username'', JStr ''al''), (''global_name'', JNull),
      (''discriminator'', JStr ''0'')]"

definition rich_data :: "(string \<times> json) list" where
  "rich_data =
     [(''id'', JInt 81384788765712384), (''username'', JStr ''nelly''),
      (''global_name'', JStr ''Nelly''), (''discriminator'', JStr ''1337''),
      (''avatar'', JStr ''a_8342729096ea3675442027381ff50dfe''), (''banner'', JNull),
      (''accent_color'', JInt 0), (''public_flags'', JInt 64)]"

text \<open>The requests sent between two states of the runtime.\<close>

definition issued :: "('w, 'm, 'a, 'c, 'f) runtime \<Rightarrow> ('w, 'm, 'a, 'c, 'f) runtime \<Rightarrow> request list" where
  "issued s s' = drop (length (trace s)) (trace s')"

text \<open>
  A concrete collaborator for running the operations on examples.  It answers every
  request with the same user record and counts the requests, except that it fails every
  \<^verbatim>\<open>DELETE\<close>.  Messages, channels and payloads are the decoded bodies themselves, and
  the stand-in for \<^verbatim>\<open>bytes_to_base64\<close> only puts a prefix before the bytes.  The
  runtime \<open>start\<close> holds one \<^verbatim>\<open>PartialUser\<close> of id 123 at reference 0.
\<close>

definition plain_api :: "(nat, json, json, string, string) api" where
  "plain_api =
     \<lparr>query_fn = (\<lambda>req w.
        (if http_method req = ''DELETE'' then Inl (Raised ''HTTPException'')
         else Inr (JObj [(''id'', JStr ''456''), (''username'', JStr ''al'')]), Suc w)),
      Message_init = Inr,
      DMChannel_init = Inr,
      DMChannel_id = (\<lambda>d. case d of
         JObj kv \<Rightarrow> (case and_then (dict_item kv ''id'') py_int of Inr i \<Rightarrow> i | Inl _ \<Rightarrow> 0)
       | _ \<Rightarrow> 0),
      MessageResponse_init = Inr,
      to_multipart = Inr,
      content_type = (\<lambda>_. ''multipart/form-data''),
      bytes_to_base64 = (\<lambda>b. Inr (''data:image/png;base64,'' @ b)),
      delete_request = (\<lambda>m.
        \<lparr>http_method = ''DELETE'', http_path = ''/channels/456/messages/456'',
         json_arg = None, data_arg = None, headers_arg = None\<rparr>)\<rparr>"

definition start :: "(nat, json, json, json, json) runtime" where
  "start =
     \<lparr>trace = [], world = 0, heap = (\<lambda>_. PartialUserObj \<lparr>user_id = 123\<rparr>),
      next_free = 1, detached = []\<rparr>"

text \<open>The number that a string of digits denotes, read after the number \<open>acc\<close>.\<close>

definition decimal_value :: "nat \<Rightarrow> string \<Rightarrow> nat" where
  "decimal_value acc cs = foldl (\<lambda>a c. 10 * a + digit_val c) acc cs"


section \<open>Lemmas on decimal numerals\<close>

lemma digit_char_code: "n < 10 \<Longrightarrow> (of_char (digit_char n) :: nat) = 48 + n"
  by (simp add: digit_char_def)

lemma digit_char_facts:
  assumes "n < 10"
  shows "is_digit (digit_char n)" "digit_val (digit_char n) = n" "\<not> is_space (digit_char n)"
proof -
  have v: "(of_char (digit_char n) :: nat) = 48 + n"
    using assms by (rule digit_char_code)
  show "is_digit (digit_char n)" using assms by (simp add: is_digit_def v)
  show "digit_val (digit_char n) = n" by (simp add: digit_val_def v)
  show "\<not> is_space (digit_char n)" using assms by (simp add: is_space_def v)
qed


lemma signs_not_digits: "\<not> is_digit CHR ''-''" "\<not> is_digit CHR ''+''" "\<not> is_space CHR ''-''"
  by (simp_all add: is_digit_def is_space_def)

lemma dec_of_nat_digits: "c \<in> set (dec_of_nat n) \<Longrightarrow> \<exists>k<10. c = digit_char k"
proof (induction n rule: dec_of_nat.induct)
  case (1 n)
  show ?case
  proof (cases "n < 10")
    case True
    with "1.prems" show ?thesis by (subst (asm) dec_of_nat.simps) auto
  next
    case False
    with "1.prems" have "c \<in> set (dec_of_nat (n div 10)) \<or> c = digit_char (n mod 10)"
      by (subst (asm) dec_of_nat.simps) auto
    then show ?thesis
    proof
      assume "c \<in> set (dec_of_nat (n div 10))"
      with False "1.IH" show ?thesis by simp
    next
      assume "c = digit_char (n mod 10)"
      moreover have "n mod 10 < 10" by simp
      ultimately show ?thesis by blast
    qed
  qed
qed

lemma dec_of_nat_nonempty: "dec_of_nat n \<noteq> []"
  by (subst dec_of_nat.simps) simp

lemma digits_from_all_digits:
  "\<forall>c\<in>set cs. is_digit c \<Longrightarrow> digits_from acc cs = Some (decimal_value acc cs)"
  by (induction acc cs rule: digits_from.induct) (simp_all add: decimal_value_def)

lemma digits_all_digits:
  assumes "\<forall>c\<in>set cs. is_digit c" "cs \<noteq> []"
  shows "digits cs = Some (decimal_value 0 cs)"
  using assms by (cases cs) (simp_all add: digits_def digits_from_all_digits decimal_value_def)

lemma decimal_value_dec_of_nat: "decimal_value 0 (dec_of_nat n) = n"
proof (induction n rule: dec_of_nat.induct)
  case (1 n)
  show ?case
  proof (cases "n < 10")
    case True
    then show ?thesis
      by (subst dec_of_nat.simps) (simp add: decimal_value_def digit_char_facts)
  next
    case False
    with "1.IH" have "decimal_value 0 (dec_of_nat (n div 10)) = n div 10" by simp
    with False show ?thesis
      by (subst dec_of_nat.simps) (simp add: decimal_value_def digit_char_facts)
  qed
qed

lemma digits_dec_of_nat: "digits (dec_of_nat n) = Some n"
proof -
  have "\<forall>c\<in>set (dec_of_nat n). is_digit c"
    using dec_of_nat_digits digit_char_facts(1) by blast
  then show ?thesis
    by (simp add: digits_all_digits dec_of_nat_nonempty decimal_value_dec_of_nat)
qed



lemma dec_of_nat_chars:
  assumes "c \<in> set (dec_of_nat n)"
  shows "is_digit c" "\<not> is_space c"
  using dec_of_nat_digits[OF assms] digit_char_facts by auto

lemma strip_no_space:
  assumes "\<forall>c\<in>set s. \<not> is_space c"
  shows "strip s = s"
proof -
  have "dropWhile is_space s = s" using assms by simp
  moreover have "dropWhile is_space (rev s) = rev s"
    by (rule dropWhile_id) (use assms in simp)
  ultimately show ?thesis by (simp add: strip_def)
qed

lemma int_of_str_str_of_int: "int_of_str (str_of_int i) = Some i"
proof (cases "i < 0")
  case True
  let ?d = "dec_of_nat (nat (- i))"
  have "\<forall>c\<in>set (CHR ''-'' # ?d). \<not> is_space c"
    using dec_of_nat_chars(2) signs_not_digits(3) by auto
  then have "strip (CHR ''-'' # ?d) = CHR ''-'' # ?d"
    by (rule strip_no_space)
  with True show ?thesis
    by (simp add: int_of_str_def str_of_int_def digits_dec_of_nat)
next
  case False
  let ?d = "dec_of_nat (nat i)"
  have "\<forall>c\<in>set ?d. \<not> is_space c"
    using dec_of_nat_chars(2) by blast
  then have sp: "strip ?d = ?d" by (rule strip_no_space)
  obtain c cs where d: "?d = c # cs"
    using dec_of_nat_nonempty[of "nat i"] by (cases ?d) auto
  then have "c \<in> set ?d" by simp
  then have dc: "is_digit c" by (rule dec_of_nat_chars(1))
  have c1: "c \<noteq> CHR ''-''"
  proof
    assume "c = CHR ''-''"
    with dc signs_not_digits(1) show False by simp
  qed
  have c2: "c \<noteq> CHR ''+''"
  proof
    assume "c = CHR ''+''"
    with dc signs_not_digits(2) show False by simp
  qed
  have dg: "digits (c # cs) = Some (nat i)"
    using digits_dec_of_nat[of "nat i"] unfolding d .
  have "int_of_str (c # cs) = map_option int (digits (c # cs))"
    using sp[unfolded d] c1 c2 by (simp add: int_of_str_def)
  with dg have "int_of_str (c # cs) = Some (int (nat i))" by simp
  with False show ?thesis
    by (simp add: str_of_int_def d)
qed

lemma str_of_int_inj:
  assumes "str_of_int i = str_of_int j"
  shows "i = j"
proof -
  have "Some i = int_of_str (str_of_int i)"
    by (simp only: int_of_str_str_of_int)
  also have "\<dots> = int_of_str (str_of_int j)"
    by (simp only: assms)
  also have "\<dots> = Some j"
    by (simp only: int_of_str_str_of_int)
  finally show ?thesis by simp
qed

section \<open>Lemmas on parsing\<close>

lemma and_then_Inr: "and_then x f = Inr r \<longleftrightarrow> (\<exists>v. x = Inr v \<and> f v = Inr r)"
  by (cases x) (simp_all add: and_then_def)

lemma truthy_get: "truthy (dict_get data k JNull) = present_truthy data k"
  by (simp add: dict_get_def present_truthy_def split: option.splits)

lemma item_get: "present_truthy data k \<Longrightarrow> dict_item data k = Inr (dict_get data k JNull)"
  by (simp add: dict_get_def dict_item_def present_truthy_def split: option.splits)

lemma guardedD:
  assumes "guarded data k F g s = Inr r"
  shows "if present_truthy data k
         then \<exists>a. F (dict_get data k JNull) = Inr a \<and> r = g a
         else r = s"
proof (cases "present_truthy data k")
  case True
  with assms show ?thesis
    by (auto simp: guarded_def truthy_get item_get and_then_Inr)
next
  case False
  with assms show ?thesis
    by (simp add: guarded_def truthy_get)
qed

lemma from_data_guarded:
  "from_data m data self =
     and_then (guarded data ''avatar'' (Asset_from_avatar m (user_id self)) (\<lambda>a. self\<lparr>avatar := Some a\<rparr>) self) (\<lambda>self.
     and_then (guarded data ''banner'' (Asset_from_banner m (user_id self)) (\<lambda>a. self\<lparr>banner := Some a\<rparr>) self) (\<lambda>self.
     and_then (guarded data ''accent_color'' (Colour_init m) (\<lambda>a. self\<lparr>accent_colour := Some a\<rparr>) self) (\<lambda>self.
     and_then (guarded data ''banner_color'' (Colour_from_hex m) (\<lambda>a. self\<lparr>banner_colour := Some a\<rparr>) self) (\<lambda>self.
     and_then (guarded data ''avatar_decoration'' (Asset_from_avatar_decoration m) (\<lambda>a. self\<lparr>avatar_decoration := Some a\<rparr>) self) (\<lambda>self.
     guarded data ''public_flags'' (UserFlags_init m) (\<lambda>a. self\<lparr>public_flags := Some a\<rparr>) self)))))"
  unfolding from_data_def guarded_def ..

lemma guarded_pres:
  assumes "guarded data k F g s = Inr r" and "\<And>a. P (g a) = P s"
  shows "P r = P s"
  using guardedD[OF assms(1)] assms(2) by (auto split: if_splits)

lemma guarded_value:
  assumes "guarded data k F g s = Inr r" and "\<And>a. P (g a) = Some a"
  shows "if present_truthy data k
         then map_sum id Some (F (dict_get data k JNull)) = Inr (P r)
         else P r = P s"
  using guardedD[OF assms(1)] assms(2) by (auto split: if_splits)

lemma from_data_chain:
  assumes "from_data m data u = Inr u'"
  obtains u1 u2 u3 u4 u5 where
    "guarded data ''avatar'' (Asset_from_avatar m (user_id u)) (\<lambda>a. u\<lparr>avatar := Some a\<rparr>) u = Inr u1"
    "guarded data ''banner'' (Asset_from_banner m (user_id u1)) (\<lambda>a. u1\<lparr>banner := Some a\<rparr>) u1 = Inr u2"
    "guarded data ''accent_color'' (Colour_init m) (\<lambda>a. u2\<lparr>accent_colour := Some a\<rparr>) u2 = Inr u3"
    "guarded data ''banner_color'' (Colour_from_hex m) (\<lambda>a. u3\<lparr>banner_colour := Some a\<rparr>) u3 = Inr u4"
    "guarded data ''avatar_decoration'' (Asset_from_avatar_decoration m) (\<lambda>a. u4\<lparr>avatar_decoration := Some a\<rparr>) u4 = Inr u5"
    "guarded data ''public_flags'' (UserFlags_init m) (\<lambda>a. u5\<lparr>public_flags := Some a\<rparr>) u5 = Inr u'"
  using assms unfolding from_data_guarded and_then_Inr by blast

lemma from_data_pres:
  assumes "from_data m data u = Inr u'"
    and "\<And>x a. P (x\<lparr>avatar := a\<rparr>) = P x"
    and "\<And>x a. P (x\<lparr>banner := a\<rparr>) = P x"
    and "\<And>x a. P (x\<lparr>accent_colour := a\<rparr>) = P x"
    and "\<And>x a. P (x\<lparr>banner_colour := a\<rparr>) = P x"
    and "\<And>x a. P (x\<lparr>avatar_decoration := a\<rparr>) = P x"
    and "\<And>x a. P (x\<lparr>public_flags := a\<rparr>) = P x"
  shows "P u' = P u"
proof -
  from assms(1) obtain u1 u2 u3 u4 u5 where
    s: "guarded data ''avatar'' (Asset_from_avatar m (user_id u)) (\<lambda>a. u\<lparr>avatar := Some a\<rparr>) u = Inr u1"
    "guarded data ''banner'' (Asset_from_banner m (user_id u1)) (\<lambda>a. u1\<lparr>banner := Some a\<rparr>) u1 = Inr u2"
    "guarded data ''accent_color'' (Colour_init m) (\<lambda>a. u2\<lparr>accent_colour := Some a\<rparr>) u2 = Inr u3"
    "guarded data ''banner_color'' (Colour_from_hex m) (\<lambda>a. u3\<lparr>banner_colour := Some a\<rparr>) u3 = Inr u4"
    "guarded data ''avatar_decoration'' (Asset_from_avatar_decoration m) (\<lambda>a. u4\<lparr>avatar_decoration := Some a\<rparr>) u4 = Inr u5"
    "guarded data ''public_flags'' (UserFlags_init m) (\<lambda>a. u5\<lparr>public_flags := Some a\<rparr>) u5 = Inr u'"
    by (rule from_data_chain)
  have "P u1 = P u" by (rule guarded_pres[OF s(1)]) (rule assms(2))
  moreover have "P u2 = P u1" by (rule guarded_pres[OF s(2)]) (rule assms(3))
  moreover have "P u3 = P u2" by (rule guarded_pres[OF s(3)]) (rule assms(4))
  moreover have "P u4 = P u3" by (rule guarded_pres[OF s(4)]) (rule assms(5))
  moreover have "P u5 = P u4" by (rule guarded_pres[OF s(5)]) (rule assms(6))
  moreover have "P u' = P u5" by (rule guarded_pres[OF s(6)]) (rule assms(7))
  ultimately show ?thesis by simp
qed

lemma from_data_fields:
  assumes "from_data m data u = Inr u'"
  shows "if present_truthy data ''avatar''
         then map_sum id Some (Asset_from_avatar m (user_id u) (dict_get data ''avatar'' JNull)) = Inr (avatar u')
         else avatar u' = avatar u"
    and "if present_truthy data ''banner''
         then map_sum id Some (Asset_from_banner m (user_id u) (dict_get data ''banner'' JNull)) = Inr (banner u')
         else banner u' = banner u"
    and "if present_truthy data ''accent_color''
         then map_sum id Some (Colour_init m (dict_get data ''accent_color'' JNull)) = Inr (accent_colour u')
         else accent_colour u' = accent_colour u"
    and "if present_truthy data ''banner_color''
         then map_sum id Some (Colour_from_hex m (dict_get data ''banner_color'' JNull)) = Inr (banner_colour u')
         else banner_colour u' = banner_colour u"
    and "if present_truthy data ''avatar_decoration''
         then map_sum id Some (Asset_from_avatar_decoration m (dict_get data ''avatar_decoration'' JNull)) = Inr (avatar_decoration u')
         else avatar_decoration u' = avatar_decoration u"
    and "if present_truthy data ''public_flags''
         then map_sum id Some (UserFlags_init m (dict_get data ''public_flags'' JNull)) = Inr (public_flags u')
         else public_flags u' = public_flags u"
proof -
  from assms obtain u1 u2 u3 u4 u5 where
    s: "guarded data ''avatar'' (Asset_from_avatar m (user_id u)) (\<lambda>a. u\<lparr>avatar := Some a\<rparr>) u = Inr u1"
    "guarded data ''banner'' (Asset_from_banner m (user_id u1)) (\<lambda>a. u1\<lparr>banner := Some a\<rparr>) u1 = Inr u2"
    "guarded data ''accent_color'' (Colour_init m) (\<lambda>a. u2\<lparr>accent_colour := Some a\<rparr>) u2 = Inr u3"
    "guarded data ''banner_color'' (Colour_from_hex m) (\<lambda>a. u3\<lparr>banner_colour := Some a\<rparr>) u3 = Inr u4"
    "guarded data ''avatar_decoration'' (Asset_from_avatar_decoration m) (\<lambda>a. u4\<lparr>avatar_decoration := Some a\<rparr>) u4 = Inr u5"
    "guarded data ''public_flags'' (UserFlags_init m) (\<lambda>a. u5\<lparr>public_flags := Some a\<rparr>) u5 = Inr u'"
    by (rule from_data_chain)
  have id1: "user_id u1 = user_id u"
    by (rule guarded_pres[OF s(1), where P = user_id]) simp
  have a: "avatar u' = avatar u1"
    using guarded_pres[OF s(2), where P = avatar] guarded_pres[OF s(3), where P = avatar]
      guarded_pres[OF s(4), where P = avatar] guarded_pres[OF s(5), where P = avatar]
      guarded_pres[OF s(6), where P = avatar] by simp
  have b: "banner u' = banner u2" "banner u1 = banner u"
    using guarded_pres[OF s(1), where P = banner] guarded_pres[OF s(3), where P = banner]
      guarded_pres[OF s(4), where P = banner] guarded_pres[OF s(5), where P = banner]
      guarded_pres[OF s(6), where P = banner] by simp_all
  have c: "accent_colour u' = accent_colour u3" "accent_colour u2 = accent_colour u"
    using guarded_pres[OF s(1), where P = accent_colour] guarded_pres[OF s(2), where P = accent_colour]
      guarded_pres[OF s(4), where P = accent_colour] guarded_pres[OF s(5), where P = accent_colour]
      guarded_pres[OF s(6), where P = accent_colour] by simp_all
  have d: "banner_colour u' = banner_colour u4" "banner_colour u3 = banner_colour u"
    using guarded_pres[OF s(1), where P = banner_colour] guarded_pres[OF s(2), where P = banner_colour]
      guarded_pres[OF s(3), where P = banner_colour] guarded_pres[OF s(5), where P = banner_colour]
      guarded_pres[OF s(6), where P = banner_colour] by simp_all
  have e: "avatar_decoration u' = avatar_decoration u5" "avatar_decoration u4 = avatar_decoration u"
    using guarded_pres[OF s(1), where P = avatar_decoration] guarded_pres[OF s(2), where P = avatar_decoration]
      guarded_pres[OF s(3), where P = avatar_decoration] guarded_pres[OF s(4), where P = avatar_decoration]
      guarded_pres[OF s(6), where P = avatar_decoration] by simp_all
  have f: "public_flags u5 = public_flags u"
    using guarded_pres[OF s(1), where P = public_flags] guarded_pres[OF s(2), where P = public_flags]
      guarded_pres[OF s(3), where P = public_flags] guarded_pres[OF s(4), where P = public_flags]
      guarded_pres[OF s(5), where P = public_flags] by simp
  show "if present_truthy data ''avatar''
         then map_sum id Some (Asset_from_avatar m (user_id u) (dict_get data ''avatar'' JNull)) = Inr (avatar u')
         else avatar u' = avatar u"
    using guarded_value[OF s(1), where P = avatar] a by (simp split: if_splits)
  show "if present_truthy data ''banner''
         then map_sum id Some (Asset_from_banner m (user_id u) (dict_get data ''banner'' JNull)) = Inr (banner u')
         else banner u' = banner u"
    using guarded_value[OF s(2), where P = banner] b id1 by (simp split: if_splits)
  show "if present_truthy data ''accent_color''
         then map_sum id Some (Colour_init m (dict_get data ''accent_color'' JNull)) = Inr (accent_colour u')
         else accent_colour u' = accent_colour u"
    using guarded_value[OF s(3), where P = accent_colour] c by (simp split: if_splits)
  show "if present_truthy data ''banner_color''
         then map_sum id Some (Colour_from_hex m (dict_get data ''banner_color'' JNull)) = Inr (banner_colour u')
         else banner_colour u' = banner_colour u"
    using guarded_value[OF s(4), where P = banner_colour] d by (simp split: if_splits)
  show "if present_truthy data ''avatar_decoration''
         then map_sum id Some (Asset_from_avatar_decoration m (dict_get data ''avatar_decoration'' JNull)) = Inr (avatar_decoration u')
         else avatar_decoration u' = avatar_decoration u"
    using guarded_value[OF s(5), where P = avatar_decoration] e by (simp split: if_splits)
  show "if present_truthy data ''public_flags''
         then map_sum id Some (UserFlags_init m (dict_get data ''public_flags'' JNull)) = Inr (public_flags u')
         else public_flags u' = public_flags u"
    using guarded_value[OF s(6), where P = public_flags] f by (simp split: if_splits)
qed

lemma User_init_scheme_record:
  assumes "User_init_scheme m (JObj data) z = Inr u"
  obtains raw i username where
    "dict_item data ''id'' = Inr raw" "py_int raw = Inr i"
    "dict_item data ''username'' = Inr username"
    "from_data m data
            \<lparr>user_id = i,
             avatar = None,
             banner = None,
             name = username,
             bot_flag = dict_get data ''bot'' (JBool False),
             system = dict_get data ''system'' (JBool False),
             discriminator =
               (let disc = dict_get data ''discriminator'' JNull
                in if disc = JStr ''0'' then JNull else disc),
             accent_colour = None,
             banner_colour = None,
             avatar_decoration = None,
             global_name = dict_get data ''global_name'' JNull,
             public_flags = None,
             clan = dict_get data ''clan'' JNull,
             \<dots> = z\<rparr> = Inr u"
  using assms unfolding User_init_scheme_def by (auto simp: and_then_Inr)

lemma User_init_schemeD:
  assumes "User_init_scheme m (JObj data) z = Inr u"
  obtains raw i username u0 where
    "dict_item data ''id'' = Inr raw" "py_int raw = Inr i"
    "dict_item data ''username'' = Inr username"
    "from_data m data u0 = Inr u"
    "user_id u0 = i" "name u0 = username"
    "avatar u0 = None" "banner u0 = None" "accent_colour u0 = None" "banner_colour u0 = None"
    "avatar_decoration u0 = None" "public_flags u0 = None"
    "discriminator u0 =
       (if dict_get data ''discriminator'' JNull = JStr ''0'' then JNull
        else dict_get data ''discriminator'' JNull)"
    "global_name u0 = dict_get data ''global_name'' JNull"
proof -
  from assms obtain raw i username where
    a: "dict_item data ''id'' = Inr raw" "py_int raw = Inr i"
    "dict_item data ''username'' = Inr username"
    "from_data m data
            \<lparr>user_id = i,
             avatar = None,
             banner = None,
             name = username,
             bot_flag = dict_get data ''bot'' (JBool False),
             system = dict_get data ''system'' (JBool False),
             discriminator =
               (let disc = dict_get data ''discriminator'' JNull
                in if disc = JStr ''0'' then JNull else disc),
             accent_colour = None,
             banner_colour = None,
             avatar_decoration = None,
             global_name = dict_get data ''global_name'' JNull,
             public_flags = None,
             clan = dict_get data ''clan'' JNull,
             \<dots> = z\<rparr> = Inr u"
    by (rule User_init_scheme_record)
  show thesis
    by (rule that[OF a(1) a(2) a(3) a(4)]) (simp_all add: Let_def)
qed

lemma User_init_keeps:
  assumes "User_init m (JObj data) = Inr u"
  shows "discriminator u = (let disc = dict_get data ''discriminator'' JNull
                in if disc = JStr ''0'' then JNull else disc)"
    and "global_name u = dict_get data ''global_name'' JNull"
    and "dict_item data ''username'' = Inr (name u)"
    and "map_sum id JInt (and_then (dict_item data ''id'') py_int) = Inr (JInt (user_id u))"
proof -
  from assms[unfolded User_init_def] obtain raw i username u0 where
    r: "dict_item data ''id'' = Inr raw" "py_int raw = Inr i"
       "dict_item data ''username'' = Inr username"
    and f: "from_data m data u0 = Inr u"
    and u0: "user_id u0 = i" "name u0 = username"
        "discriminator u0 =
       (if dict_get data ''discriminator'' JNull = JStr ''0'' then JNull
        else dict_get data ''discriminator'' JNull)"
        "global_name u0 = dict_get data ''global_name'' JNull"
    by (rule User_init_schemeD)
  have "discriminator u = discriminator u0"
    by (rule from_data_pres[OF f, where P = discriminator]) simp_all
  with u0 show "discriminator u = (let disc = dict_get data ''discriminator'' JNull
                in if disc = JStr ''0'' then JNull else disc)" by (simp add: Let_def)
  have "global_name u = global_name u0"
    by (rule from_data_pres[OF f, where P = global_name]) simp_all
  with u0 show "global_name u = dict_get data ''global_name'' JNull" by simp
  have "name u = name u0"
    by (rule from_data_pres[OF f, where P = name]) simp_all
  with u0 r show "dict_item data ''username'' = Inr (name u)" by simp
  have "user_id u = user_id u0"
    by (rule from_data_pres[OF f, where P = user_id]) simp_all
  with u0 r show "map_sum id JInt (and_then (dict_item data ''id'') py_int) = Inr (JInt (user_id u))"
    by (simp add: and_then_def)
qed

lemma User_init_optional:
  assumes "User_init m (JObj data) = Inr u"
  shows "if present_truthy data ''avatar''
         then map_sum id Some (Asset_from_avatar m (user_id u) (dict_get data ''avatar'' JNull)) = Inr (avatar u)
         else avatar u = None"
    and "if present_truthy data ''banner''
         then map_sum id Some (Asset_from_banner m (user_id u) (dict_get data ''banner'' JNull)) = Inr (banner u)
         else banner u = None"
    and "if present_truthy data ''accent_color''
         then map_sum id Some (Colour_init m (dict_get data ''accent_color'' JNull)) = Inr (accent_colour u)
         else accent_colour u = None"
    and "if present_truthy data ''banner_color''
         then map_sum id Some (Colour_from_hex m (dict_get data ''banner_color'' JNull)) = Inr (banner_colour u)
         else banner_colour u = None"
    and "if present_truthy data ''avatar_decoration''
         then map_sum id Some (Asset_from_avatar_decoration m (dict_get data ''avatar_decoration'' JNull)) = Inr (avatar_decoration u)
         else avatar_decoration u = None"
    and "if present_truthy data ''public_flags''
         then map_sum id Some (UserFlags_init m (dict_get data ''public_flags'' JNull)) = Inr (public_flags u)
         else public_flags u = None"
proof -
  from assms[unfolded User_init_def] obtain u0 where
    f: "from_data m data u0 = Inr u"
    and u0: "avatar u0 = None" "banner u0 = None" "accent_colour u0 = None" "banner_colour u0 = None"
        "avatar_decoration u0 = None" "public_flags u0 = None"
    by (rule User_init_schemeD)
  have i: "user_id u = user_id u0"
    by (rule from_data_pres[OF f, where P = user_id]) simp_all
  show "if present_truthy data ''avatar''
         then map_sum id Some (Asset_from_avatar m (user_id u) (dict_get data ''avatar'' JNull)) = Inr (avatar u)
         else avatar u = None"
    using from_data_fields(1)[OF f] u0 i by simp
  show "if present_truthy data ''banner''
         then map_sum id Some (Asset_from_banner m (user_id u) (dict_get data ''banner'' JNull)) = Inr (banner u)
         else banner u = None"
    using from_data_fields(2)[OF f] u0 i by simp
  show "if present_truthy data ''accent_color''
         then map_sum id Some (Colour_init m (dict_get data ''accent_color'' JNull)) = Inr (accent_colour u)
         else accent_colour u = None"
    using from_data_fields(3)[OF f] u0 by simp
  show "if present_truthy data ''banner_color''
         then map_sum id Some (Colour_from_hex m (dict_get data ''banner_color'' JNull)) = Inr (banner_colour u)
         else banner_colour u = None"
    using from_data_fields(4)[OF f] u0 by simp
  show "if present_truthy data ''avatar_decoration''
         then map_sum id Some (Asset_from_avatar_decoration m (dict_get data ''avatar_decoration'' JNull)) = Inr (avatar_decoration u)
         else avatar_decoration u = None"
    using from_data_fields(5)[OF f] u0 by simp
  show "if present_truthy data ''public_flags''
         then map_sum id Some (UserFlags_init m (dict_get data ''public_flags'' JNull)) = Inr (public_flags u)
         else public_flags u = None"
    using from_data_fields(6)[OF f] u0 by simp
qed

lemma map_sum_Some_iff: "map_sum id Some x = Inr y \<Longrightarrow> y \<noteq> None"
  by (cases x) auto


lemma scenario_parses:
  obtains u where "User_init plain_models (JObj scenario_data) = Inr u"
proof -
  have "\<not> isl (User_init plain_models (JObj scenario_data))" by code_simp
  then show thesis
    by (cases "User_init plain_models (JObj scenario_data)") (simp_all add: that)
qed

lemma rich_parses:
  obtains u where "User_init plain_models (JObj rich_data) = Inr u"
proof -
  have "\<not> isl (User_init plain_models (JObj rich_data))" by code_simp
  then show thesis
    by (cases "User_init plain_models (JObj rich_data)") (simp_all add: that)
qed

section \<open>The claims on parsing and display\<close>

text \<open>
  Claim C4.  Whenever a record parses into a \<^verbatim>\<open>User\<close>, each of the six optional fields
  (avatar, banner, accent colour, banner colour, avatar decoration, public flags) is set
  exactly when its key is present in the record with a true value; otherwise the field is
  \<open>None\<close>, and reading it gives \<open>None\<close>: the fields are total, no read raises.
\<close>

theorem optional_fields_iff_present_truthy:
  assumes "User_init m (JObj data) = Inr u"
  shows "(avatar u \<noteq> None \<longleftrightarrow> present_truthy data ''avatar'') \<and>
         (banner u \<noteq> None \<longleftrightarrow> present_truthy data ''banner'') \<and>
         (accent_colour u \<noteq> None \<longleftrightarrow> present_truthy data ''accent_color'') \<and>
         (banner_colour u \<noteq> None \<longleftrightarrow> present_truthy data ''banner_color'') \<and>
         (avatar_decoration u \<noteq> None \<longleftrightarrow> present_truthy data ''avatar_decoration'') \<and>
         (public_flags u \<noteq> None \<longleftrightarrow> present_truthy data ''public_flags'')"
  using User_init_optional[OF assms] by (auto dest: map_sum_Some_iff split: if_splits)

text \<open>
  The theorem at \<open>rich_data\<close>: the avatar and the public flags are set, the null banner
  and the zero accent colour leave their fields unset, as do the absent keys.
\<close>

theorem optional_fields_witness:
  "\<not> isl (User_init plain_models (JObj rich_data)) \<and>
   avatar (projr (User_init plain_models (JObj rich_data))) \<noteq> None \<and>
   banner (projr (User_init plain_models (JObj rich_data))) = None \<and>
   accent_colour (projr (User_init plain_models (JObj rich_data))) = None \<and>
   banner_colour (projr (User_init plain_models (JObj rich_data))) = None \<and>
   avatar_decoration (projr (User_init plain_models (JObj rich_data))) = None \<and>
   public_flags (projr (User_init plain_models (JObj rich_data))) \<noteq> None"
proof -
  obtain u where u: "User_init plain_models (JObj rich_data) = Inr u"
    by (rule rich_parses)
  have p: "present_truthy rich_data ''avatar''" "\<not> present_truthy rich_data ''banner''"
    "\<not> present_truthy rich_data ''accent_color''" "\<not> present_truthy rich_data ''banner_color''"
    "\<not> present_truthy rich_data ''avatar_decoration''" "present_truthy rich_data ''public_flags''"
    by (simp_all add: present_truthy_def rich_data_def)
  show ?thesis
    using optional_fields_iff_present_truthy[OF u] p by (simp add: u)
qed

text \<open>
  Claim C5.  Whenever a record parses into a \<^verbatim>\<open>User\<close>: if its discriminator is the
  string \<^verbatim>\<open>"0"\<close> the field is unset, and if it is any other string the field holds that
  string unchanged.
\<close>

theorem discriminator_zero_is_unset:
  assumes "User_init m (JObj data) = Inr u"
  shows "(map_of data ''discriminator'' = Some (JStr ''0'') \<longrightarrow> discriminator u = JNull) \<and>
         (\<forall>s. s \<noteq> ''0'' \<and> map_of data ''discriminator'' = Some (JStr s) \<longrightarrow> discriminator u = JStr s)"
  using User_init_keeps(1)[OF assms] by (auto simp: dict_get_def Let_def)

text \<open>The theorem at \<open>scenario_data\<close> (discriminator "0") and \<open>rich_data\<close> ("1337").\<close>

theorem discriminator_witness:
  "\<not> isl (User_init plain_models (JObj scenario_data)) \<and>
   discriminator (projr (User_init plain_models (JObj scenario_data))) = JNull \<and>
   \<not> isl (User_init plain_models (JObj rich_data)) \<and>
   discriminator (projr (User_init plain_models (JObj rich_data))) = JStr ''1337''"
proof -
  obtain u where u: "User_init plain_models (JObj scenario_data) = Inr u"
    by (rule scenario_parses)
  obtain v where v: "User_init plain_models (JObj rich_data) = Inr v"
    by (rule rich_parses)
  have d: "map_of scenario_data ''discriminator'' = Some (JStr ''0'')"
    "map_of rich_data ''discriminator'' = Some (JStr ''1337'')"
    by (simp_all add: scenario_data_def rich_data_def)
  show ?thesis
    using discriminator_zero_is_unset[OF u] discriminator_zero_is_unset[OF v] d
    by (simp add: u v)
qed

text \<open>
  Claim C6, as stated, fails: \<^verbatim>\<open>self.global_name or self.name\<close> tests the truth of
  \<^verbatim>\<open>global_name\<close>, not whether it is set.  A record whose \<^verbatim>\<open>global_name\<close> is the
  empty string parses into a \<^verbatim>\<open>User\<close> whose \<^verbatim>\<open>global_name\<close> is set (to the empty
  string), and its \<^verbatim>\<open>display_name\<close> is the username, not that value.
\<close>

theorem display_name_counterexample:
  "map_sum id global_name (User_init plain_models
      (JObj [(''id'', JStr ''123''), (''username'', JStr ''al''), (''global_name'', JStr '''')]))
     = Inr (JStr '''') \<and>
   map_sum id display_name (User_init plain_models
      (JObj [(''id'', JStr ''123''), (''username'', JStr ''al''), (''global_name'', JStr '''')]))
     = Inr (JStr ''al'') \<and>
   map_sum id display_name (User_init plain_models
      (JObj [(''id'', JStr ''123''), (''username'', JStr ''al''), (''global_name'', JStr '''')]))
     \<noteq>
   map_sum id global_name (User_init plain_models
      (JObj [(''id'', JStr ''123''), (''username'', JStr ''al''), (''global_name'', JStr '''')]))"
  by code_simp

text \<open>
  Claim C6, amended.  For every \<^verbatim>\<open>User\<close>, \<^verbatim>\<open>display_name\<close> is the global name when
  \<^verbatim>\<open>global_name\<close> is a non-empty string, and the username when \<^verbatim>\<open>global_name\<close> is
  unset or the empty string.  For a parsed record: a non-empty \<^verbatim>\<open>global_name\<close> string
  of the record is the display name, and with the key absent, null or empty the display
  name is the record's username.
\<close>

theorem display_name_when_truthy:
  "(\<forall>g. global_name u = JStr g \<and> g \<noteq> [] \<longrightarrow> display_name u = JStr g) \<and>
   (global_name u = JNull \<or> global_name u = JStr [] \<longrightarrow> display_name u = name u) \<and>
   (User_init m (JObj data) = Inr v \<longrightarrow>
      (\<forall>g. map_of data ''global_name'' = Some (JStr g) \<and> g \<noteq> [] \<longrightarrow> display_name v = JStr g) \<and>
      (map_of data ''global_name'' \<in> {None, Some JNull, Some (JStr [])} \<longrightarrow>
         map_of data ''username'' = Some (display_name v)))"
proof -
  have "map_of data ''username'' = Some (name v) \<and> global_name v = dict_get data ''global_name'' JNull"
    if "User_init m (JObj data) = Inr v"
    using User_init_keeps(2,3)[OF that] by (auto simp: dict_item_def split: option.splits)
  then show ?thesis
    by (auto simp: display_name_def dict_get_def)
qed

text \<open>The theorem at \<open>scenario_data\<close> (null global name) and \<open>rich_data\<close> ("Nelly").\<close>

theorem display_name_witness:
  "\<not> isl (User_init plain_models (JObj scenario_data)) \<and>
   display_name (projr (User_init plain_models (JObj scenario_data))) = JStr ''al'' \<and>
   \<not> isl (User_init plain_models (JObj rich_data)) \<and>
   display_name (projr (User_init plain_models (JObj rich_data))) = JStr ''Nelly''"
proof -
  obtain u where u: "User_init plain_models (JObj scenario_data) = Inr u"
    by (rule scenario_parses)
  obtain v where v: "User_init plain_models (JObj rich_data) = Inr v"
    by (rule rich_parses)
  have d: "map_of scenario_data ''global_name'' = Some JNull"
    "map_of scenario_data ''username'' = Some (JStr ''al'')"
    "map_of rich_data ''global_name'' = Some (JStr ''Nelly'')"
    by (simp_all add: scenario_data_def rich_data_def)
  show ?thesis
    using display_name_when_truthy[of u plain_models scenario_data u]
      display_name_when_truthy[of v plain_models rich_data v] d
    by (simp add: u v)
qed

text \<open>
  Claim C7.  \<^verbatim>\<open>display_avatar\<close> is the avatar when one is set and the default avatar
  otherwise.  With a non-empty enumeration of \<open>n\<close> variants the default avatar is the
  variant that \<^verbatim>\<open>Asset._from_default_avatar\<close> builds for the index
  \<open>(id div 2 ^ 22) mod n\<close>, which lies in \<open>0 ..< n\<close>; it is a function of the id alone, so
  equal ids give equal variants.
\<close>

theorem display_avatar_fallback:
  "(avatar u = Some a \<longrightarrow> display_avatar m u = Inr a) \<and>
   (avatar u = None \<longrightarrow> display_avatar m u = default_avatar m u) \<and>
   (0 < len_DefaultAvatarType m \<longrightarrow>
      default_avatar m u =
        Asset_from_default_avatar m ((user_id u div 2 ^ 22) mod int (len_DefaultAvatarType m)) \<and>
      0 \<le> (user_id u div 2 ^ 22) mod int (len_DefaultAvatarType m) \<and>
      (user_id u div 2 ^ 22) mod int (len_DefaultAvatarType m) < int (len_DefaultAvatarType m)) \<and>
   (user_id v = user_id u \<longrightarrow> default_avatar m v = default_avatar m u)"
  by (simp add: display_avatar_def default_avatar_def default_avatar_index_def and_then_def drop_bit_eq_div)

text \<open>
  The theorem at the two example records: \<open>rich_data\<close> has an avatar, which is displayed,
  and its default avatar has index \<open>4\<close>; \<open>scenario_data\<close> has none and displays the
  default avatar of index \<open>0\<close>.
\<close>

theorem display_avatar_witness:
  "\<not> isl (User_init plain_models (JObj rich_data)) \<and>
   display_avatar plain_models (projr (User_init plain_models (JObj rich_data)))
     = Inr (JStr ''a_8342729096ea3675442027381ff50dfe'') \<and>
   default_avatar plain_models (projr (User_init plain_models (JObj rich_data))) = Inr (JInt 4) \<and>
   \<not> isl (User_init plain_models (JObj scenario_data)) \<and>
   display_avatar plain_models (projr (User_init plain_models (JObj scenario_data)))
     = Inr (JInt 0)"
proof -
  obtain u where u: "User_init plain_models (JObj rich_data) = Inr u"
    by (rule rich_parses)
  obtain v where v: "User_init plain_models (JObj scenario_data) = Inr v"
    by (rule scenario_parses)
  have "map_sum id avatar (User_init plain_models (JObj rich_data))
          = Inr (Some (JStr ''a_8342729096ea3675442027381ff50dfe''))"
    by code_simp
  then have au: "avatar u = Some (JStr ''a_8342729096ea3675442027381ff50dfe'')"
    by (simp add: u)
  have "map_sum id user_id (User_init plain_models (JObj rich_data)) = Inr 81384788765712384"
    by code_simp
  then have iu: "user_id u = 81384788765712384"
    by (simp add: u)
  have "map_sum id avatar (User_init plain_models (JObj scenario_data)) = Inr None"
    by code_simp
  then have av: "avatar v = None"
    by (simp add: v)
  have "map_sum id user_id (User_init plain_models (JObj scenario_data)) = Inr 123"
    by code_simp
  then have iv: "user_id v = 123"
    by (simp add: v)
  have n: "len_DefaultAvatarType plain_models = 6"
    "Asset_from_default_avatar plain_models = (\<lambda>i. Inr (JInt i))"
    by (simp_all add: plain_models_def)
  show ?thesis
    using display_avatar_fallback[of u "JStr ''a_8342729096ea3675442027381ff50dfe''" plain_models u]
      display_avatar_fallback[of v undefined plain_models v] au iu av iv n
    by (simp add: u v)
qed

section \<open>The claim on mentions\<close>

lemma int_of_str_123: "int_of_str ''123'' = Some 123"
  by code_simp

lemma str_of_int_123: "str_of_int 123 = ''123''"
  by code_simp

text \<open>
  Claim C8.  \<^verbatim>\<open>mention\<close> is the token \<^verbatim>\<open><@!\<close>, the decimal numeral of the id,
  \<^verbatim>\<open>>\<close>; the numeral reads back as that very id, so two mentions are equal exactly when
  the ids are.  A \<^verbatim>\<open>User\<close> parsed from a record whose id is the string \<^verbatim>\<open>"123"\<close> has
  the mention \<^verbatim>\<open><@!123>\<close>.
\<close>

theorem mention_contains_id:
  "mention u = ''<@!'' @ str_of_int (user_id u) @ ''>'' \<and>
   int_of_str (str_of_int (user_id u)) = Some (user_id u) \<and>
   (mention u = mention v \<longleftrightarrow> user_id u = user_id v) \<and>
   (User_init m (JObj data) = Inr w \<and> map_of data ''id'' = Some (JStr ''123'')
      \<longrightarrow> mention w = ''<@!123>'')"
proof -
  have a: "mention u = mention v \<longleftrightarrow> user_id u = user_id v"
    by (auto simp: mention_def dest: str_of_int_inj)
  have b: "mention w = ''<@!123>''"
    if "User_init m (JObj data) = Inr w" "map_of data ''id'' = Some (JStr ''123'')"
  proof -
    have "dict_item data ''id'' = Inr (JStr ''123'')"
      using that(2) by (simp add: dict_item_def)
    with User_init_keeps(4)[OF that(1)] have "user_id w = 123"
      by (simp add: and_then_def int_of_str_123)
    then show ?thesis
      by (simp add: mention_def str_of_int_123)
  qed
  show ?thesis
    using a b by (simp add: mention_def int_of_str_str_of_int)
qed

text \<open>The theorem at the record of the end-to-end scenario.\<close>

theorem mention_witness:
  "\<not> isl (User_init plain_models (JObj scenario_data)) \<and>
   map_of scenario_data ''id'' = Some (JStr ''123'') \<and>
   mention (projr (User_init plain_models (JObj scenario_data))) = ''<@!123>''"
proof -
  obtain u where u: "User_init plain_models (JObj scenario_data) = Inr u"
    by (rule scenario_parses)
  have d: "map_of scenario_data ''id'' = Some (JStr ''123'')"
    by (simp add: scenario_data_def)
  from mention_contains_id[of u u plain_models scenario_data u] u d
  have "mention u = ''<@!123>''"
    by blast
  with d show ?thesis
    by (simp add: u)
qed

section \<open>The operations: requests, results and the store\<close>

lemma query_eq:
  "query api req s =
     (fst (query_fn api req (world s)),
      s\<lparr>trace := trace s @ [req], world := snd (query_fn api req (world s))\<rparr>)"
  by (simp add: query_def split: prod.splits)

lemma create_dm_frame:
  "trace (snd (create_dm api self s)) = trace s @ [create_dm_request (obj_id (heap s self))]"
  "heap (snd (create_dm api self s)) = heap s"
  "next_free (snd (create_dm api self s)) = next_free s"
  "detached (snd (create_dm api self s)) = detached s"
  by (simp_all add: create_dm_def query_eq split: sum.splits)

lemma send_missing_first:
  "\<exists>rest. trace (snd (send api self content MISSING delete_after s))
     = trace s @ create_dm_request (obj_id (heap s self)) # rest"
  by (simp add: send_def create_dm_def query_eq Message_delete_def
      split: sum.splits option.splits)

lemma send_missing_trace:
  "trace (snd (send api self content MISSING delete_after s))
     = trace s @ [create_dm_request (obj_id (heap s self))] \<or>
   (\<exists>ch body ctype. trace (snd (send api self content MISSING delete_after s))
      = trace s @ [create_dm_request (obj_id (heap s self)),
          create_message_request (Some (DMChannel_id api ch)) body ctype])"
  by (auto simp: send_def create_dm_def query_eq Message_delete_def
      split: sum.splits option.splits)

lemma send_given_trace:
  "trace (snd (send api self content (Given c) delete_after s)) = trace s \<or>
   (\<exists>body ctype. trace (snd (send api self content (Given c) delete_after s))
      = trace s @ [create_message_request c body ctype])"
  by (auto simp: send_def query_eq Message_delete_def split: sum.splits option.splits)

lemma send_heap:
  "heap (snd (send api self content channel_id delete_after s)) = heap s"
  "next_free (snd (send api self content channel_id delete_after s)) = next_free s"
  by (simp_all add: send_def create_dm_def query_eq Message_delete_def
      split: sum.splits option.splits arg.splits)

lemma send_missing_success:
  assumes "query_fn api (create_dm_request (obj_id (heap s self))) (world s) = (Inr r1, w1)"
    and "DMChannel_init api r1 = Inr ch"
    and "MessageResponse_init api content = Inr payload"
    and "to_multipart api payload = Inr body"
    and "query_fn api (create_message_request (Some (DMChannel_id api ch)) body
           (content_type api payload)) w1 = (Inr r2, w2)"
    and "Message_init api r2 = Inr msg"
  shows "fst (send api self content MISSING delete_after s) = Inr msg"
    and "trace (snd (send api self content MISSING delete_after s)) =
      trace s @ [create_dm_request (obj_id (heap s self)),
        create_message_request (Some (DMChannel_id api ch)) body (content_type api payload)]"
  using assms
  by (simp_all add: send_def create_dm_def query_eq Message_delete_def split: option.splits)

lemma create_message_path:
  "http_path (create_message_request c body ctype) \<noteq> ''/users/@me/channels''"
  "http_method (create_message_request c body ctype) = ''POST''"
  "http_path (create_message_request None body ctype) = ''/channels/None/messages''"
  by (simp_all add: create_message_request_def format_channel_id_def)

lemma send_delete_after:
  "send api self content channel_id (Some delay) s =
     (case send api self content channel_id None s of
        (Inl e, s1) \<Rightarrow> (Inl e, s1)
      | (Inr msg, s1) \<Rightarrow> (Inr msg, s1\<lparr>detached := detached s1 @ [(delay, msg)]\<rparr>))"
  by (simp add: send_def Message_delete_def split: sum.splits prod.splits arg.splits)


lemma alloc_eq:
  "fst (alloc ob s) = Inr (next_free s)"
  "heap (snd (alloc ob s)) = (heap s)(next_free s := ob)"
  "next_free (snd (alloc ob s)) = Suc (next_free s)"
  "trace (snd (alloc ob s)) = trace s"
  by (simp_all add: alloc_def)

lemma fetch_heap:
  "a < next_free s \<Longrightarrow> heap (snd (fetch m api self s)) a = heap s a"
  by (simp add: fetch_def query_eq alloc_def split: sum.splits)

lemma fetch_fresh:
  "fst (fetch m api self s) = Inr r \<Longrightarrow>
     r = next_free s \<and> next_free (snd (fetch m api self s)) = Suc (next_free s) \<and>
     (\<exists>u. heap (snd (fetch m api self s)) r = UserObj u)"
  by (auto simp: fetch_def query_eq alloc_def split: sum.splits)

lemma edit_heap:
  "a < next_free s \<Longrightarrow> heap (snd (edit m api self username avatar_arg banner_arg s)) a = heap s a"
  by (simp add: edit_def query_eq alloc_def split: sum.splits)

lemma edit_fresh:
  "fst (edit m api self username avatar_arg banner_arg s) = Inr r \<Longrightarrow>
     r = next_free s \<and>
     next_free (snd (edit m api self username avatar_arg banner_arg s)) = Suc (next_free s) \<and>
     (\<exists>u. heap (snd (edit m api self username avatar_arg banner_arg s)) r = UserClientObj u)"
  by (auto simp: edit_def query_eq alloc_def split: sum.splits)



lemma edit_no_payload:
  assumes "edit_payload api username avatar_arg banner_arg = Inl e"
  shows "edit m api self username avatar_arg banner_arg s = (Inl e, s)"
  using assms by (simp add: edit_def)




lemma fold_run_deletion:
  "trace (fold (run_deletion api) us s) = trace s @ map (\<lambda>u. delete_request api (snd u)) us"
  "detached (fold (run_deletion api) us s) = detached s"
  "heap (fold (run_deletion api) us s) = heap s"
  by (induction us arbitrary: s) (simp_all add: run_deletion_def query_eq)

lemma run_detached_eq:
  "trace (run_detached api s) = trace s @ map (\<lambda>u. delete_request api (snd u)) (detached s)"
  "detached (run_detached api s) = []"
  "heap (run_detached api s) = heap s"
  by (simp_all add: run_detached_def fold_run_deletion)

lemma send_none_detached:
  "detached (snd (send api self content channel_id None s)) = detached s"
  by (simp add: send_def create_dm_def query_eq split: sum.splits arg.splits)

lemma issued_append: "trace s' = trace s @ rs \<Longrightarrow> issued s s' = rs"
  by (simp add: issued_def)

lemma send_given_no_create_dm:
  assumes "req \<in> set (issued s (snd (send api self content (Given c) delete_after s)))"
  shows "http_path req \<noteq> ''/users/@me/channels''"
    and "http_method req = ''POST''"
    and "http_path req = ''/channels/'' @ format_channel_id c @ ''/messages''"
proof -
  let ?s' = "snd (send api self content (Given c) delete_after s)"
  have "issued s ?s' = [] \<or>
    (\<exists>body ctype. issued s ?s' = [create_message_request c body ctype])"
    using send_given_trace[of api self content c delete_after s]
  proof (elim disjE exE)
    assume "trace ?s' = trace s"
    then have "issued s ?s' = []" by (simp add: issued_def)
    then show ?thesis by simp
  next
    fix body ctype
    assume "trace ?s' = trace s @ [create_message_request c body ctype]"
    then have "issued s ?s' = [create_message_request c body ctype]" by (rule issued_append)
    then show ?thesis by blast
  qed
  with assms obtain body ctype where r: "req = create_message_request c body ctype"
    by auto
  show "http_path req \<noteq> ''/users/@me/channels''"
    unfolding r by (rule create_message_path(1))
  show "http_method req = ''POST''"
    unfolding r by (rule create_message_path(2))
  show "http_path req = ''/channels/'' @ format_channel_id c @ ''/messages''"
    unfolding r by (simp add: create_message_request_def)
qed

lemma send_given_payload:
  assumes "MessageResponse_init api content = Inr payload" "to_multipart api payload = Inr body"
  shows "issued s (snd (send api self content (Given c) delete_after s))
    = [create_message_request c body (content_type api payload)]"
  using assms
  by (intro issued_append)
    (simp add: send_def query_eq Message_delete_def split: sum.splits option.splits)

lemmas request_shapes =
  create_dm_request_def create_message_request_def edit_request_def format_channel_id_def
  option.case

lemma plain_api_answers:
  "query_fn plain_api req w =
     (if http_method req = ''DELETE'' then Inl (Raised ''HTTPException'')
      else Inr (JObj [(''id'', JStr ''456''), (''username'', JStr ''al'')]), Suc w)"
  "Message_init plain_api = Inr" "DMChannel_init plain_api = Inr"
  "MessageResponse_init plain_api = Inr" "to_multipart plain_api = Inr"
  "content_type plain_api p = ''multipart/form-data''"
  "bytes_to_base64 plain_api b = Inr (''data:image/png;base64,'' @ b)"
  by (simp_all add: plain_api_def)

lemma plain_api_channel:
  "DMChannel_id plain_api (JObj [(''id'', JStr ''456''), (''username'', JStr ''al'')]) = 456"
  by code_simp

lemma str_of_int_456: "str_of_int 456 = ''456''"
  by code_simp

lemma start_fields:
  "trace start = []" "world start = 0" "heap start a = PartialUserObj \<lparr>user_id = 123\<rparr>"
  "next_free start = 1" "detached start = []"
  by (simp_all add: start_def)

text \<open>
  Claim C1.  A call of \<^verbatim>\<open>send\<close> without a channel id first sends the request of
  \<^verbatim>\<open>create_dm\<close>, a \<^verbatim>\<open>POST\<close> to \<^verbatim>\<open>/users/@me/channels\<close> with the receiver's id as
  \<^verbatim>\<open>recipient_id\<close>, and after it at most one request, a \<^verbatim>\<open>POST\<close> to
  \<^verbatim>\<open>/channels/{id}/messages\<close> with the decimal id of a channel.  When the first request
  is answered and the channel, the payload and the message are built, the call sends exactly
  one more request, the creation of a message with that payload in the channel of the id
  just obtained, and returns the \<^verbatim>\<open>Message\<close> parsed from the answer; a failure on the way
  is raised to the caller.  The decimal id in the path reads back as the id.  A call with a
  channel id sends no request to \<^verbatim>\<open>/users/@me/channels\<close>: it sends nothing, or one
  \<^verbatim>\<open>POST\<close> to the messages of the channel given and nothing else.
\<close>

theorem send_without_channel_id:
  "(trace (snd (send api self content MISSING delete_after s))
      = trace s @
        [\<lparr>http_method = ''POST'', http_path = ''/users/@me/channels'',
          json_arg = Some (JObj [(''recipient_id'', JInt (obj_id (heap s self)))]),
          data_arg = None, headers_arg = None\<rparr>] \<or>
    (\<exists>ch body ctype. trace (snd (send api self content MISSING delete_after s))
      = trace s @
        [\<lparr>http_method = ''POST'', http_path = ''/users/@me/channels'',
          json_arg = Some (JObj [(''recipient_id'', JInt (obj_id (heap s self)))]),
          data_arg = None, headers_arg = None\<rparr>,
         \<lparr>http_method = ''POST'',
          http_path = ''/channels/'' @ str_of_int (DMChannel_id api ch) @ ''/messages'',
          json_arg = None, data_arg = Some body,
          headers_arg = Some [(''Content-Type'', ctype)]\<rparr>])) \<and>
   (query_fn api
      \<lparr>http_method = ''POST'', http_path = ''/users/@me/channels'',
       json_arg = Some (JObj [(''recipient_id'', JInt (obj_id (heap s self)))]),
       data_arg = None, headers_arg = None\<rparr> (world s) = (Inr r1, w1) \<and>
    DMChannel_init api r1 = Inr ch \<and>
    MessageResponse_init api content = Inr payload \<and>
    to_multipart api payload = Inr body \<and>
    query_fn api
      \<lparr>http_method = ''POST'',
       http_path = ''/channels/'' @ str_of_int (DMChannel_id api ch) @ ''/messages'',
       json_arg = None, data_arg = Some body,
       headers_arg = Some [(''Content-Type'', content_type api payload)]\<rparr> w1 = (Inr r2, w2) \<and>
    Message_init api r2 = Inr msg
    \<longrightarrow>
      fst (send api self content MISSING delete_after s) = Inr msg \<and>
      trace (snd (send api self content MISSING delete_after s)) =
        trace s @
        [\<lparr>http_method = ''POST'', http_path = ''/users/@me/channels'',
          json_arg = Some (JObj [(''recipient_id'', JInt (obj_id (heap s self)))]),
          data_arg = None, headers_arg = None\<rparr>,
         \<lparr>http_method = ''POST'',
          http_path = ''/channels/'' @ str_of_int (DMChannel_id api ch) @ ''/messages'',
          json_arg = None, data_arg = Some body,
          headers_arg = Some [(''Content-Type'', content_type api payload)]\<rparr>]) \<and>
   int_of_str (str_of_int (DMChannel_id api ch)) = Some (DMChannel_id api ch) \<and>
   (trace (snd (send api self content (Given c) delete_after s)) = trace s \<or>
    (\<exists>body ctype. trace (snd (send api self content (Given c) delete_after s))
      = trace s @
        [\<lparr>http_method = ''POST'',
          http_path = ''/channels/''
            @ (case c of None \<Rightarrow> ''None'' | Some i \<Rightarrow> str_of_int i) @ ''/messages'',
          json_arg = None, data_arg = Some body,
          headers_arg = Some [(''Content-Type'', ctype)]\<rparr>])) \<and>
   (\<forall>req \<in> set (issued s (snd (send api self content (Given c) delete_after s))).
      http_path req \<noteq> ''/users/@me/channels'' \<and>
      http_method req = ''POST'' \<and>
      http_path req
        = ''/channels/'' @ (case c of None \<Rightarrow> ''None'' | Some i \<Rightarrow> str_of_int i) @ ''/messages'')"
  using send_missing_trace[of api self content delete_after s, unfolded request_shapes]
    send_missing_success[of api s self r1 w1 ch content payload body r2 w2 msg delete_after,
      unfolded request_shapes]
    send_given_no_create_dm[of _ s api self content c delete_after, unfolded request_shapes]
    send_given_trace[of api self content c delete_after s, unfolded request_shapes]
    int_of_str_str_of_int[of "DMChannel_id api ch"]
  by blast

text \<open>
  The theorem at the concrete collaborator: the two requests of a call without a channel
  id, to \<^verbatim>\<open>/users/@me/channels\<close> and to \<^verbatim>\<open>/channels/456/messages\<close>, and the single
  request of a call with the channel id 456.
\<close>

theorem send_without_channel_id_witness:
  "fst (send plain_api 0 ''hi'' MISSING None start)
     = Inr (JObj [(''id'', JStr ''456''), (''username'', JStr ''al'')]) \<and>
   trace (snd (send plain_api 0 ''hi'' MISSING None start))
     = [\<lparr>http_method = ''POST'', http_path = ''/users/@me/channels'',
         json_arg = Some (JObj [(''recipient_id'', JInt 123)]),
         data_arg = None, headers_arg = None\<rparr>,
        \<lparr>http_method = ''POST'', http_path = ''/channels/456/messages'',
         json_arg = None, data_arg = Some ''hi'',
         headers_arg = Some [(''Content-Type'', ''multipart/form-data'')]\<rparr>] \<and>
   issued start (snd (send plain_api 0 ''hi'' (Given (Some 456)) None start))
     = [\<lparr>http_method = ''POST'', http_path = ''/channels/456/messages'',
         json_arg = None, data_arg = Some ''hi'',
         headers_arg = Some [(''Content-Type'', ''multipart/form-data'')]\<rparr>] \<and>
   http_path (hd (issued start (snd (send plain_api 0 ''hi'' (Given (Some 456)) None start))))
     \<noteq> ''/users/@me/channels''"
proof -
  let ?r = "JObj [(''id'', JStr ''456''), (''username'', JStr ''al'')]"
  have h: "query_fn plain_api
      \<lparr>http_method = ''POST'', http_path = ''/users/@me/channels'',
       json_arg = Some (JObj [(''recipient_id'', JInt (obj_id (heap start 0)))]),
       data_arg = None, headers_arg = None\<rparr> (world start) = (Inr ?r, 1)"
    "DMChannel_init plain_api ?r = Inr ?r"
    "MessageResponse_init plain_api ''hi'' = Inr ''hi''"
    "to_multipart plain_api ''hi'' = Inr ''hi''"
    "query_fn plain_api
      \<lparr>http_method = ''POST'',
       http_path = ''/channels/'' @ str_of_int (DMChannel_id plain_api ?r) @ ''/messages'',
       json_arg = None, data_arg = Some ''hi'',
       headers_arg = Some [(''Content-Type'', content_type plain_api ''hi'')]\<rparr> 1 = (Inr ?r, 2)"
    "Message_init plain_api ?r = Inr ?r"
    by (simp_all add: plain_api_answers start_fields)
  have i: "issued start (snd (send plain_api 0 ''hi'' (Given (Some 456)) None start))
     = [\<lparr>http_method = ''POST'', http_path = ''/channels/456/messages'',
         json_arg = None, data_arg = Some ''hi'',
         headers_arg = Some [(''Content-Type'', ''multipart/form-data'')]\<rparr>]"
    using send_given_payload[of plain_api "''hi''" "''hi''" "''hi''" start 0 "Some 456" None]
    by (simp add: plain_api_answers request_shapes str_of_int_456)
  note t = send_without_channel_id[where api = plain_api and self = 0 and content = "''hi''"
      and delete_after = None and s = start and ?r1.0 = ?r and ?w1.0 = 1 and ch = ?r
      and payload = "''hi''" and body = "''hi''" and ?r2.0 = ?r and ?w2.0 = 2 and msg = ?r
      and c = "Some 456"]
  from t h have "fst (send plain_api 0 ''hi'' MISSING None start) = Inr ?r \<and>
      trace (snd (send plain_api 0 ''hi'' MISSING None start)) =
        trace start @
        [\<lparr>http_method = ''POST'', http_path = ''/users/@me/channels'',
          json_arg = Some (JObj [(''recipient_id'', JInt (obj_id (heap start 0)))]),
          data_arg = None, headers_arg = None\<rparr>,
         \<lparr>http_method = ''POST'',
          http_path = ''/channels/'' @ str_of_int (DMChannel_id plain_api ?r) @ ''/messages'',
          json_arg = None, data_arg = Some ''hi'',
          headers_arg = Some [(''Content-Type'', content_type plain_api ''hi'')]\<rparr>]"
    by blast
  moreover from t have "\<forall>req \<in> set (issued start
      (snd (send plain_api 0 ''hi'' (Given (Some 456)) None start))).
      http_path req \<noteq> ''/users/@me/channels'' \<and>
      http_path req = ''/channels/'' @ (case Some 456 of None \<Rightarrow> ''None'' | Some i \<Rightarrow> str_of_int i)
        @ ''/messages''"
    by blast
  ultimately show ?thesis
    using i by (simp add: start_fields plain_api_channel plain_api_answers str_of_int_456)
qed

text \<open>
  Claim C10.  Only an omitted \<^verbatim>\<open>channel_id\<close> creates a DM channel: that call first
  sends a \<^verbatim>\<open>POST\<close> to \<^verbatim>\<open>/users/@me/channels\<close> with the receiver's id as
  \<^verbatim>\<open>recipient_id\<close>, and a call with any channel id, \<^verbatim>\<open>None\<close> among them, sends no
  request to that path.  With \<^verbatim>\<open>channel_id=None\<close> every request of the call is a
  \<^verbatim>\<open>POST\<close> to \<^verbatim>\<open>/channels/None/messages\<close>, the \<^verbatim>\<open>None\<close> formatted into the path as it
  is: the call sends nothing, or that one request and nothing else, and once the payload
  is built the request is sent.
\<close>

theorem explicit_None_channel_id:
  "(\<exists>rest. trace (snd (send api self content MISSING delete_after s))
      = trace s @
        \<lparr>http_method = ''POST'', http_path = ''/users/@me/channels'',
         json_arg = Some (JObj [(''recipient_id'', JInt (obj_id (heap s self)))]),
         data_arg = None, headers_arg = None\<rparr> # rest) \<and>
   (trace (snd (send api self content (Given None) delete_after s)) = trace s \<or>
    (\<exists>body ctype. trace (snd (send api self content (Given None) delete_after s))
      = trace s @
        [\<lparr>http_method = ''POST'', http_path = ''/channels/None/messages'',
          json_arg = None, data_arg = Some body,
          headers_arg = Some [(''Content-Type'', ctype)]\<rparr>])) \<and>
   (\<forall>req \<in> set (issued s (snd (send api self content (Given None) delete_after s))).
      http_method req = ''POST'' \<and> http_path req = ''/channels/None/messages'' \<and>
      http_path req \<noteq> ''/users/@me/channels'') \<and>
   (\<forall>req \<in> set (issued s (snd (send api self content (Given c) delete_after s))).
      http_path req \<noteq> ''/users/@me/channels'') \<and>
   (MessageResponse_init api content = Inr payload \<and> to_multipart api payload = Inr body \<longrightarrow>
      issued s (snd (send api self content (Given None) delete_after s))
        = [\<lparr>http_method = ''POST'', http_path = ''/channels/None/messages'',
            json_arg = None, data_arg = Some body,
            headers_arg = Some [(''Content-Type'', content_type api payload)]\<rparr>])"
  using send_missing_first[of api self content delete_after s, unfolded request_shapes]
    send_given_no_create_dm[of _ s api self content None delete_after, unfolded request_shapes]
    send_given_no_create_dm(1)[of _ s api self content c delete_after]
    send_given_payload[of api content payload body s self None delete_after,
      unfolded request_shapes]
    send_given_trace[of api self content None delete_after s, unfolded request_shapes]
  by (simp add: request_shapes)

text \<open>The theorem at the concrete collaborator.\<close>

theorem explicit_None_channel_id_witness:
  "issued start (snd (send plain_api 0 ''hi'' (Given None) None start))
     = [\<lparr>http_method = ''POST'', http_path = ''/channels/None/messages'',
         json_arg = None, data_arg = Some ''hi'',
         headers_arg = Some [(''Content-Type'', ''multipart/form-data'')]\<rparr>] \<and>
   hd (issued start (snd (send plain_api 0 ''hi'' MISSING None start)))
     = \<lparr>http_method = ''POST'', http_path = ''/users/@me/channels'',
        json_arg = Some (JObj [(''recipient_id'', JInt 123)]),
        data_arg = None, headers_arg = None\<rparr> \<and>
   http_path (hd (issued start (snd (send plain_api 0 ''hi'' (Given None) None start))))
     \<noteq> ''/users/@me/channels''"
proof -
  note t = explicit_None_channel_id[of plain_api 0 "''hi''" None start None "''hi''" "''hi''"]
  have h: "MessageResponse_init plain_api ''hi'' = Inr ''hi''"
    "to_multipart plain_api ''hi'' = Inr ''hi''"
    by (simp_all add: plain_api_answers)
  from t h have i: "issued start (snd (send plain_api 0 ''hi'' (Given None) None start))
        = [\<lparr>http_method = ''POST'', http_path = ''/channels/None/messages'',
            json_arg = None, data_arg = Some ''hi'',
            headers_arg = Some [(''Content-Type'', content_type plain_api ''hi'')]\<rparr>]"
    by blast
  from t have n: "\<forall>req \<in> set (issued start (snd (send plain_api 0 ''hi'' (Given None) None start))).
      http_path req \<noteq> ''/users/@me/channels''"
    by blast
  from t obtain rest where "trace (snd (send plain_api 0 ''hi'' MISSING None start))
      = trace start @
        \<lparr>http_method = ''POST'', http_path = ''/users/@me/channels'',
         json_arg = Some (JObj [(''recipient_id'', JInt (obj_id (heap start 0)))]),
         data_arg = None, headers_arg = None\<rparr> # rest"
    by blast
  then have "hd (issued start (snd (send plain_api 0 ''hi'' MISSING None start)))
      = \<lparr>http_method = ''POST'', http_path = ''/users/@me/channels'',
        json_arg = Some (JObj [(''recipient_id'', JInt 123)]),
        data_arg = None, headers_arg = None\<rparr>"
    by (simp add: issued_def start_fields)
  with i n show ?thesis
    by (simp add: plain_api_answers)
qed

text \<open>
  Claim C2.  With \<^verbatim>\<open>delete_after\<close> set, \<^verbatim>\<open>send\<close> returns what it returns without it,
  the sent \<^verbatim>\<open>Message\<close> when the sending succeeded, and sends the same requests: the
  deletion is not part of the call.  It is recorded as a detached unit of work, and when the
  detached units run later, the deletion request is sent and its outcome goes nowhere.
\<close>

theorem delete_after_is_detached:
  "fst (send api self content channel_id (Some delay) s)
     = fst (send api self content channel_id None s) \<and>
   trace (snd (send api self content channel_id (Some delay) s))
     = trace (snd (send api self content channel_id None s)) \<and>
   (\<forall>msg. fst (send api self content channel_id None s) = Inr msg \<longrightarrow>
      detached (snd (send api self content channel_id (Some delay) s))
        = detached s @ [(delay, msg)] \<and>
      (\<forall>api'. detached (run_detached api' (snd (send api self content channel_id (Some delay) s))) = [] \<and>
         trace (run_detached api' (snd (send api self content channel_id (Some delay) s)))
           = trace (snd (send api self content channel_id None s))
             @ map (\<lambda>u. delete_request api' (snd u)) (detached s @ [(delay, msg)])))"
proof -
  obtain res s1 where n: "send api self content channel_id None s = (res, s1)"
    by (cases "send api self content channel_id None s")
  have d: "detached s1 = detached s"
    using send_none_detached[of api self content channel_id s] n by simp
  show ?thesis
    by (cases res) (simp_all add: send_delete_after n d run_detached_eq)
qed

text \<open>
  The theorem at the concrete collaborator, which fails every \<^verbatim>\<open>DELETE\<close>: the message
  is returned all the same, and the deletion request is sent when the detached unit runs.
\<close>

theorem delete_after_is_detached_witness:
  "fst (send plain_api 0 ''hi'' (Given (Some 456)) (Some (Finite 5)) start)
     = Inr (JObj [(''id'', JStr ''456''), (''username'', JStr ''al'')]) \<and>
   fst (query_fn plain_api
         (delete_request plain_api (JObj [(''id'', JStr ''456''), (''username'', JStr ''al'')])) 1)
     = Inl (Raised ''HTTPException'') \<and>
   trace (run_detached plain_api
           (snd (send plain_api 0 ''hi'' (Given (Some 456)) (Some (Finite 5)) start)))
     = [create_message_request (Some 456) ''hi'' ''multipart/form-data'',
        delete_request plain_api (JObj [(''id'', JStr ''456''), (''username'', JStr ''al'')])]"
proof -
  let ?r = "JObj [(''id'', JStr ''456''), (''username'', JStr ''al'')]"
  have r: "fst (send plain_api 0 ''hi'' (Given (Some 456)) None start) = Inr ?r"
    by (simp add: send_def query_eq plain_api_answers create_message_request_def)
  have i: "issued start (snd (send plain_api 0 ''hi'' (Given (Some 456)) None start))
     = [create_message_request (Some 456) ''hi'' ''multipart/form-data'']"
    using send_given_payload[of plain_api "''hi''" "''hi''" "''hi''" start 0 "Some 456" None]
    by (simp add: plain_api_answers)
  then have t: "trace (snd (send plain_api 0 ''hi'' (Given (Some 456)) None start))
     = [create_message_request (Some 456) ''hi'' ''multipart/form-data'']"
    by (simp add: issued_def start_fields)
  have f: "fst (query_fn plain_api (delete_request plain_api ?r) 1) = Inl (Raised ''HTTPException'')"
    by (simp add: plain_api_def)
  note c = delete_after_is_detached[of plain_api 0 "''hi''" "Given (Some 456)" "Finite 5" start]
  from c have "fst (send plain_api 0 ''hi'' (Given (Some 456)) (Some (Finite 5)) start)
      = fst (send plain_api 0 ''hi'' (Given (Some 456)) None start)"
    by blast
  with r have "fst (send plain_api 0 ''hi'' (Given (Some 456)) (Some (Finite 5)) start) = Inr ?r"
    by (simp only:)
  moreover from c r have "trace (run_detached plain_api
           (snd (send plain_api 0 ''hi'' (Given (Some 456)) (Some (Finite 5)) start)))
     = trace (snd (send plain_api 0 ''hi'' (Given (Some 456)) None start))
         @ map (\<lambda>u. delete_request plain_api (snd u)) (detached start @ [(Finite 5, ?r)])"
    by blast
  ultimately show ?thesis
    using t f by (simp add: start_fields)
qed




text \<open>
  Claim C9.  \<^verbatim>\<open>send\<close> and \<^verbatim>\<open>create_dm\<close> leave the store of instances as it is;
  \<^verbatim>\<open>fetch\<close> and \<^verbatim>\<open>edit\<close> leave every allocated instance, the receiver among them, as
  it is, with its id and every other field, and what they return is a reference that was not
  allocated before, to a new \<^verbatim>\<open>User\<close> or \<^verbatim>\<open>UserClient\<close>.
\<close>

theorem receiver_never_mutated:
  "heap (snd (send api self content channel_id delete_after s)) = heap s \<and>
   heap (snd (create_dm api self s)) = heap s \<and>
   (\<forall>a < next_free s.
      heap (snd (fetch m api self s)) a = heap s a \<and>
      heap (snd (edit m api self username avatar_arg banner_arg s)) a = heap s a) \<and>
   (\<forall>r. fst (fetch m api self s) = Inr r \<longrightarrow>
      r = next_free s \<and> (\<exists>u. heap (snd (fetch m api self s)) r = UserObj u)) \<and>
   (\<forall>r. fst (edit m api self username avatar_arg banner_arg s) = Inr r \<longrightarrow>
      r = next_free s \<and>
      (\<exists>u. heap (snd (edit m api self username avatar_arg banner_arg s)) r = UserClientObj u))"
  using send_heap(1)[of api self content channel_id delete_after s]
    create_dm_frame(2)[of api self s]
    fetch_heap[of _ s m api self]
    edit_heap[of _ s m api self username avatar_arg banner_arg]
    fetch_fresh[of m api self s]
    edit_fresh[of m api self username avatar_arg banner_arg s]
  by blast

text \<open>
  The theorem at the concrete collaborator: the receiver at reference 0 is unchanged, the
  results are at reference 1.
\<close>

theorem receiver_never_mutated_witness:
  "(0::nat) < next_free start \<and>
   heap (snd (fetch plain_models plain_api 0 start)) 0 = heap start 0 \<and>
   heap (snd (edit plain_models plain_api 0 (Given (Some ''bob'')) MISSING MISSING start)) 0
     = heap start 0 \<and>
   fst (fetch plain_models plain_api 0 start) = Inr 1 \<and>
   fst (edit plain_models plain_api 0 (Given (Some ''bob'')) MISSING MISSING start) = Inr 1 \<and>
   obj_id (heap (snd (send plain_api 0 ''hi'' MISSING None start)) 0) = 123"
proof -
  note t = receiver_never_mutated[of plain_api 0 "''hi''" MISSING None start plain_models
      "Given (Some ''bob'')" MISSING MISSING]
  have n: "(0::nat) < next_free start"
    by (simp add: start_fields)
  have f: "fst (fetch plain_models plain_api 0 start) = Inr 1"
    by code_simp
  have e: "fst (edit plain_models plain_api 0 (Given (Some ''bob'')) MISSING MISSING start) = Inr 1"
    by code_simp
  from t n have "heap (snd (fetch plain_models plain_api 0 start)) 0 = heap start 0 \<and>
      heap (snd (edit plain_models plain_api 0 (Given (Some ''bob'')) MISSING MISSING start)) 0
        = heap start 0"
    by blast
  moreover from t have "heap (snd (send plain_api 0 ''hi'' MISSING None start)) = heap start"
    by blast
  ultimately show ?thesis
    using n f e by (simp add: start_fields)
qed

end
